theory Spec2Isabelle
  imports Main "HOL-Library.List_Lexorder" "HOL-Library.Char_ord"
begin

section \<open>GabLira: presence monitoring, penalties and the TTL cache\<close>

text \<open>
  A shallow embedding of the hooks \<^verbatim>\<open>useCache\<close>, \<^verbatim>\<open>useMonitoringSystem\<close>,
  \<^verbatim>\<open>useUserManager\<close> and of \<^verbatim>\<open>reducePenalty\<close> of the settings screen.
  Times are milliseconds since the epoch (\<^verbatim>\<open>Date.now()\<close>) as \<open>int\<close>; counters are
  JavaScript numbers holding integers, as \<open>int\<close>; a value that may be \<^verbatim>\<open>null\<close> is an
  \<open>option\<close>.
\<close>

subsection \<open>useCache\<close>

text \<open>
  \<^verbatim>\<open>interface CacheItem<T> { data: T; timestamp: number; ttl: number }\<close>.
  The hook is used with nullable data (\<^verbatim>\<open>setCache(cacheKey, null, 0)\<close>), so \<open>data\<close> is an
  option and \<open>None\<close> is \<^verbatim>\<open>null\<close>.
\<close>

record 'v cacheItem =
  data :: "'v option"
  timestamp :: int
  ttl :: int

text \<open>
  The hook keeps the entries in \<^verbatim>\<open>cacheRef.current\<close> and mirrors them into the React
  state \<^verbatim>\<open>cache\<close> on every change.
\<close>

record 'v cache_hook =
  cacheRef :: "string \<rightharpoonup> 'v cacheItem"
  cache :: "string \<rightharpoonup> 'v cacheItem"

definition cache_empty :: "'v cache_hook" where
  "cache_empty = \<lparr>cacheRef = Map.empty, cache = Map.empty\<rparr>"

text \<open>\<^verbatim>\<open>get(key)\<close>, evaluated when \<^verbatim>\<open>Date.now()\<close> is \<open>now\<close>.\<close>

definition cache_get :: "int \<Rightarrow> string \<Rightarrow> 'v cache_hook \<Rightarrow> 'v option \<times> 'v cache_hook" where
  "cache_get now key h =
     (case cacheRef h key of
        None \<Rightarrow> (None, h)
      | Some item \<Rightarrow>
          if now - timestamp item > ttl item
          then (let ref' = (cacheRef h)(key := None)
                in (None, h\<lparr>cacheRef := ref', cache := ref'\<rparr>))
          else (data item, h))"

text \<open>\<^verbatim>\<open>set(key, data, ttl)\<close>, evaluated when \<^verbatim>\<open>Date.now()\<close> is \<open>now\<close>.\<close>

definition cache_set :: "int \<Rightarrow> string \<Rightarrow> 'v option \<Rightarrow> int \<Rightarrow> 'v cache_hook \<Rightarrow> 'v cache_hook" where
  "cache_set now key d t h =
     (let item = \<lparr>data = d, timestamp = now, ttl = t\<rparr>;
          ref' = (cacheRef h)(key \<mapsto> item)
      in h\<lparr>cacheRef := ref', cache := ref'\<rparr>)"

text \<open>The default of the \<^verbatim>\<open>ttl\<close> parameter: \<^verbatim>\<open>5 * 60 * 1000\<close>.\<close>

definition cache_default_ttl :: int where
  "cache_default_ttl = 5 * 60 * 1000"

definition cache_remove :: "string \<Rightarrow> 'v cache_hook \<Rightarrow> 'v cache_hook" where
  "cache_remove key h =
     (let ref' = (cacheRef h)(key := None) in h\<lparr>cacheRef := ref', cache := ref'\<rparr>)"

definition cache_clear :: "'v cache_hook \<Rightarrow> 'v cache_hook" where
  "cache_clear h = h\<lparr>cacheRef := Map.empty, cache := Map.empty\<rparr>"

definition cache_isExpired :: "int \<Rightarrow> string \<Rightarrow> 'v cache_hook \<Rightarrow> bool" where
  "cache_isExpired now key h =
     (case cacheRef h key of
        None \<Rightarrow> True
      | Some item \<Rightarrow> now - timestamp item > ttl item)"

subsection \<open>The penalty window\<close>

definition penaltyStart :: nat where
  "penaltyStart = 22 * 60 + 30"

definition penaltyEnd :: nat where
  "penaltyEnd = 5 * 60 + 30"

text \<open>
  The body of \<^verbatim>\<open>isInPenaltyPeriod\<close> on the two clock readings it takes,
  \<^verbatim>\<open>now.getHours()\<close> and \<^verbatim>\<open>now.getMinutes()\<close>.
\<close>

definition isInPenaltyPeriod_at :: "nat \<Rightarrow> nat \<Rightarrow> bool" where
  "isInPenaltyPeriod_at hour minute =
     (let currentTime = hour * 60 + minute
      in currentTime \<ge> penaltyStart \<or> currentTime \<le> penaltyEnd)"

subsection \<open>The remote store\<close>

text \<open>
  Modelled from the spec: the remote store. The Supabase client and the database behind it
  are not among the sources; the hooks only call them. As the Remote Store Adapter of the
  spec has it, a request is answered once, with its result or with an error that carries a
  code, and a lookup of one row that finds none is answered with the "no rows" code (the
  \<^verbatim>\<open>PGRST116\<close> that the hooks test for). The tables, the defaults of their columns, the
  unique device name, the references to \<^verbatim>\<open>users(id)\<close> and the trigger on \<^verbatim>\<open>users\<close> are those
  of the migration; there is one record per row type of \<^verbatim>\<open>types/database\<close>. A \<^verbatim>\<open>uuid\<close> is
  a natural number; a calendar date (\<^verbatim>\<open>penalty_date\<close>) is the number of its day since the
  epoch.
\<close>

type_synonym uuid = nat

type_synonym pg_code = string

record user =
  u_id :: uuid
  device_name :: string
  penalty_count :: int
  last_seen :: int
  is_online :: bool
  u_created_at :: int
  updated_at :: int

record penalty =
  p_id :: uuid
  p_user_id :: uuid
  penalty_date :: int
  removed_by :: "uuid option"
  removed_at :: "int option"
  p_created_at :: int

record activity =
  a_id :: uuid
  a_user_id :: uuid
  ping_timestamp :: int
  response_time :: int
  a_is_online :: bool
  a_created_at :: int

text \<open>The object passed to \<^verbatim>\<open>from('users').update(...)\<close>: the columns it names.\<close>

record user_patch =
  set_penalty_count :: "int option"
  set_last_seen :: "int option"
  set_is_online :: "bool option"
  set_updated_at :: "int option"

definition no_update :: user_patch where
  "no_update = \<lparr>set_penalty_count = None, set_last_seen = None, set_is_online = None,
                  set_updated_at = None\<rparr>"

text \<open>Every request the client sends to the store, in the order sent.\<close>

datatype request =
    SelectActivePenaltyOn uuid int
  | InsertPenalty uuid int
  | UpdateUser uuid user_patch
  | SelectUserId uuid
  | InsertActivity uuid int int bool
  | SelectUserByDevice string
  | InsertUser string bool int
  | SelectLatestActivePenalty uuid
  | UpdatePenalty uuid uuid int
  | SelectUsers

fun is_read :: "request \<Rightarrow> bool" where
  "is_read (SelectActivePenaltyOn _ _) = True"
| "is_read (SelectUserId _) = True"
| "is_read (SelectUserByDevice _) = True"
| "is_read (SelectLatestActivePenalty _) = True"
| "is_read SelectUsers = True"
| "is_read _ = False"

text \<open>What a \<^verbatim>\<open>catch\<close> block can receive.\<close>

datatype exn = PostgrestError pg_code | NetInfoFailure

text \<open>\<^verbatim>\<open>NetInfo.fetch()\<close>: the state it resolves to, or a rejection.\<close>

datatype net_reply = NetInfoState "bool option" "bool option" | NetInfoRejected

text \<open>
  The store with the environment of a call. \<open>clock\<close> is \<^verbatim>\<open>Date.now()\<close>, \<open>tz_offset\<close> the
  minutes local time is ahead of UTC. \<open>replies\<close> is what the environment decides for the
  coming store requests, one entry per request: the time the request takes and, when it
  fails, the code of the error (with no entry left a request takes no time and succeeds).
  \<open>requests\<close>, \<open>console\<close> and \<open>alerts\<close> record what was sent, what \<^verbatim>\<open>console.error\<close>
  printed and what \<^verbatim>\<open>Alert.alert\<close> showed.
\<close>

record world =
  users :: "user list"
  penalties :: "penalty list"
  user_activity :: "activity list"
  clock :: int
  tz_offset :: int
  netinfo :: net_reply
  net_delay :: int
  replies :: "(int \<times> pg_code option) list"
  requests :: "request list"
  console :: "(string \<times> exn) list"
  alerts :: "(string \<times> string) list"

definition await_reply :: "request \<Rightarrow> world \<Rightarrow> pg_code option \<times> world" where
  "await_reply rq w =
     (case replies w of
        [] \<Rightarrow> (None, w\<lparr>requests := requests w @ [rq]\<rparr>)
      | (d, failure) # rs \<Rightarrow>
          (failure, w\<lparr>requests := requests w @ [rq], clock := clock w + d, replies := rs\<rparr>))"

text \<open>
  \<^verbatim>\<open>.single()\<close>: the row when the result has exactly one, otherwise no data and the error
  \<^verbatim>\<open>PGRST116\<close> (PostgREST reports it for no row and for several rows alike).
\<close>

definition single :: "'a list \<Rightarrow> 'a option \<times> pg_code option" where
  "single rows = (case rows of [r] \<Rightarrow> (Some r, None) | _ \<Rightarrow> (None, Some ''PGRST116''))"

text \<open>\<^verbatim>\<open>gen_random_uuid()\<close>: an identifier no row of the table has.\<close>

definition fresh_uuid :: "uuid list \<Rightarrow> uuid" where
  "fresh_uuid ids = Suc (fold max ids 0)"

definition user_exists :: "uuid \<Rightarrow> world \<Rightarrow> bool" where
  "user_exists uid w = (uid \<in> set (map u_id (users w)))"

text \<open>
  \<^verbatim>\<open>from('penalties').select('*').eq('user_id', uid).eq('penalty_date', today)
  .is('removed_by', null).single()\<close>
\<close>

definition active_on :: "uuid \<Rightarrow> int \<Rightarrow> penalty \<Rightarrow> bool" where
  "active_on uid today p = (p_user_id p = uid \<and> penalty_date p = today \<and> removed_by p = None)"

definition select_active_penalty_on ::
  "uuid \<Rightarrow> int \<Rightarrow> world \<Rightarrow> (penalty option \<times> pg_code option) \<times> world" where
  "select_active_penalty_on uid today w =
     (let (failure, w1) = await_reply (SelectActivePenaltyOn uid today) w
      in case failure of
           Some c \<Rightarrow> ((None, Some c), w1)
         | None \<Rightarrow> (single (filter (active_on uid today) (penalties w1)), w1))"

text \<open>
  \<^verbatim>\<open>from('penalties').insert({ user_id, penalty_date })\<close>. \<^verbatim>\<open>user_id\<close> references
  \<^verbatim>\<open>users(id)\<close>; the other columns take their defaults.
\<close>

definition insert_penalty :: "uuid \<Rightarrow> int \<Rightarrow> world \<Rightarrow> pg_code option \<times> world" where
  "insert_penalty uid today w =
     (let (failure, w1) = await_reply (InsertPenalty uid today) w
      in case failure of
           Some c \<Rightarrow> (Some c, w1)
         | None \<Rightarrow>
             if \<not> user_exists uid w1 then (Some ''23503'', w1)
             else (None, w1\<lparr>penalties := penalties w1 @
                     [\<lparr>p_id = fresh_uuid (map p_id (penalties w1)), p_user_id = uid,
                       penalty_date = today, removed_by = None, removed_at = None,
                       p_created_at = clock w1\<rparr>]\<rparr>))"

text \<open>
  A row of \<^verbatim>\<open>users\<close> after an update: the named columns change, and the trigger
  \<^verbatim>\<open>update_users_updated_at\<close> then sets \<^verbatim>\<open>updated_at\<close> to the store's \<^verbatim>\<open>now()\<close>.
\<close>

definition apply_update :: "user_patch \<Rightarrow> int \<Rightarrow> user \<Rightarrow> user" where
  "apply_update upd now u =
     u\<lparr>penalty_count := (case set_penalty_count upd of Some c \<Rightarrow> c | None \<Rightarrow> penalty_count u),
       last_seen := (case set_last_seen upd of Some t \<Rightarrow> t | None \<Rightarrow> last_seen u),
       is_online := (case set_is_online upd of Some b \<Rightarrow> b | None \<Rightarrow> is_online u),
       updated_at := now\<rparr>"

definition update_rows :: "uuid \<Rightarrow> user_patch \<Rightarrow> int \<Rightarrow> user list \<Rightarrow> user list" where
  "update_rows uid upd now us = map (\<lambda>u. if u_id u = uid then apply_update upd now u else u) us"

text \<open>\<^verbatim>\<open>from('users').update(upd).eq('id', uid)\<close>\<close>

definition update_users :: "uuid \<Rightarrow> user_patch \<Rightarrow> world \<Rightarrow> pg_code option \<times> world" where
  "update_users uid upd w =
     (let (failure, w1) = await_reply (UpdateUser uid upd) w
      in case failure of
           Some c \<Rightarrow> (Some c, w1)
         | None \<Rightarrow> (None, w1\<lparr>users := update_rows uid upd (clock w1) (users w1)\<rparr>))"

text \<open>\<^verbatim>\<open>from('users').update(upd).eq('id', uid).select().single()\<close>\<close>

definition update_users_returning ::
  "uuid \<Rightarrow> user_patch \<Rightarrow> world \<Rightarrow> (user option \<times> pg_code option) \<times> world" where
  "update_users_returning uid upd w =
     (let (failure, w1) = await_reply (UpdateUser uid upd) w
      in case failure of
           Some c \<Rightarrow> ((None, Some c), w1)
         | None \<Rightarrow>
             (let us = update_rows uid upd (clock w1) (users w1)
              in (single (filter (\<lambda>u. u_id u = uid) us), w1\<lparr>users := us\<rparr>)))"

text \<open>\<^verbatim>\<open>from('users').select('id').eq('id', uid).single()\<close>\<close>

definition select_user_id :: "uuid \<Rightarrow> world \<Rightarrow> (uuid option \<times> pg_code option) \<times> world" where
  "select_user_id uid w =
     (let (failure, w1) = await_reply (SelectUserId uid) w
      in case failure of
           Some c \<Rightarrow> ((None, Some c), w1)
         | None \<Rightarrow> (single (filter (\<lambda>i. i = uid) (map u_id (users w1))), w1))"

text \<open>
  \<^verbatim>\<open>from('user_activity').insert({ user_id, ping_timestamp, response_time, is_online })\<close>
\<close>

definition insert_activity ::
  "uuid \<Rightarrow> int \<Rightarrow> int \<Rightarrow> bool \<Rightarrow> world \<Rightarrow> pg_code option \<times> world" where
  "insert_activity uid ts rt online w =
     (let (failure, w1) = await_reply (InsertActivity uid ts rt online) w
      in case failure of
           Some c \<Rightarrow> (Some c, w1)
         | None \<Rightarrow>
             if \<not> user_exists uid w1 then (Some ''23503'', w1)
             else (None, w1\<lparr>user_activity := user_activity w1 @
                     [\<lparr>a_id = fresh_uuid (map a_id (user_activity w1)), a_user_id = uid,
                       ping_timestamp = ts, response_time = rt, a_is_online = online,
                       a_created_at = clock w1\<rparr>]\<rparr>))"

text \<open>\<^verbatim>\<open>from('users').select('*').eq('device_name', name).single()\<close>\<close>

definition select_user_by_device ::
  "string \<Rightarrow> world \<Rightarrow> (user option \<times> pg_code option) \<times> world" where
  "select_user_by_device name w =
     (let (failure, w1) = await_reply (SelectUserByDevice name) w
      in case failure of
           Some c \<Rightarrow> ((None, Some c), w1)
         | None \<Rightarrow> (single (filter (\<lambda>u. device_name u = name) (users w1)), w1))"

text \<open>
  \<^verbatim>\<open>from('users').insert({ device_name, is_online, last_seen }).select().single()\<close>.
  \<^verbatim>\<open>device_name\<close> is unique; \<^verbatim>\<open>penalty_count\<close> defaults to 0 and both timestamps to the
  store's \<^verbatim>\<open>now()\<close>.
\<close>

definition insert_user ::
  "string \<Rightarrow> bool \<Rightarrow> int \<Rightarrow> world \<Rightarrow> (user option \<times> pg_code option) \<times> world" where
  "insert_user name online seen w =
     (let (failure, w1) = await_reply (InsertUser name online seen) w
      in case failure of
           Some c \<Rightarrow> ((None, Some c), w1)
         | None \<Rightarrow>
             if name \<in> set (map device_name (users w1)) then ((None, Some ''23505''), w1)
             else (let u = \<lparr>u_id = fresh_uuid (map u_id (users w1)), device_name = name,
                             penalty_count = 0, last_seen = seen, is_online = online,
                             u_created_at = clock w1, updated_at = clock w1\<rparr>
                   in ((Some u, None), w1\<lparr>users := users w1 @ [u]\<rparr>)))"

text \<open>
  \<^verbatim>\<open>from('penalties').select('*').eq('user_id', uid).is('removed_by', null)
  .order('created_at', { ascending: false }).limit(1).single()\<close>:
  \<open>latest\<close> is the first row of the ordered result.
\<close>

definition active_of :: "uuid \<Rightarrow> penalty \<Rightarrow> bool" where
  "active_of uid p = (p_user_id p = uid \<and> removed_by p = None)"

fun latest :: "penalty list \<Rightarrow> penalty option" where
  "latest [] = None"
| "latest (p # ps) =
     (case latest ps of
        None \<Rightarrow> Some p
      | Some q \<Rightarrow> if p_created_at p < p_created_at q then Some q else Some p)"

definition select_latest_active_penalty ::
  "uuid \<Rightarrow> world \<Rightarrow> (penalty option \<times> pg_code option) \<times> world" where
  "select_latest_active_penalty uid w =
     (let (failure, w1) = await_reply (SelectLatestActivePenalty uid) w
      in case failure of
           Some c \<Rightarrow> ((None, Some c), w1)
         | None \<Rightarrow>
             (case latest (filter (active_of uid) (penalties w1)) of
                None \<Rightarrow> ((None, Some ''PGRST116''), w1)
              | Some p \<Rightarrow> ((Some p, None), w1)))"

text \<open>
  \<^verbatim>\<open>from('penalties').update({ removed_by, removed_at }).eq('id', pid)\<close>.
  \<^verbatim>\<open>removed_by\<close> references \<^verbatim>\<open>users(id)\<close>.
\<close>

definition resolve :: "uuid \<Rightarrow> int \<Rightarrow> penalty \<Rightarrow> penalty" where
  "resolve by at p = p\<lparr>removed_by := Some by, removed_at := Some at\<rparr>"

definition update_penalty :: "uuid \<Rightarrow> uuid \<Rightarrow> int \<Rightarrow> world \<Rightarrow> pg_code option \<times> world" where
  "update_penalty pid by at w =
     (let (failure, w1) = await_reply (UpdatePenalty pid by at) w
      in case failure of
           Some c \<Rightarrow> (Some c, w1)
         | None \<Rightarrow>
             if \<not> user_exists by w1 \<and> (\<exists>p \<in> set (penalties w1). p_id p = pid)
             then (Some ''23503'', w1)
             else (None, w1\<lparr>penalties :=
                     map (\<lambda>p. if p_id p = pid then resolve by at p else p) (penalties w1)\<rparr>))"

text \<open>\<^verbatim>\<open>from('users').select('*').order('device_name')\<close>\<close>

definition select_users :: "world \<Rightarrow> (user list option \<times> pg_code option) \<times> world" where
  "select_users w =
     (let (failure, w1) = await_reply SelectUsers w
      in case failure of
           Some c \<Rightarrow> ((None, Some c), w1)
         | None \<Rightarrow> ((Some (sort_key device_name (users w1)), None), w1))"

text \<open>
  \<^verbatim>\<open>if (e && e.code !== 'PGRST116') throw e\<close>: the code of the error that is thrown, if
  one is.
\<close>

definition fatal :: "pg_code option \<Rightarrow> pg_code option" where
  "fatal e = (case e of Some c \<Rightarrow> if c \<noteq> ''PGRST116'' then Some c else None | None \<Rightarrow> None)"

definition console_error :: "string \<Rightarrow> exn \<Rightarrow> world \<Rightarrow> world" where
  "console_error msg e w = w\<lparr>console := console w @ [(msg, e)]\<rparr>"

definition Alert_alert :: "string \<Rightarrow> string \<Rightarrow> world \<Rightarrow> world" where
  "Alert_alert title msg w = w\<lparr>alerts := alerts w @ [(title, msg)]\<rparr>"

subsection \<open>Clock readings\<close>

text \<open>
  Modelled from the spec: the clock and the network state of the device, which the hooks
  read through \<^verbatim>\<open>Date\<close> and \<^verbatim>\<open>NetInfo\<close>. The window check uses whatever local clock the
  device has, with no timezone normalization: \<^verbatim>\<open>new Date().getHours()\<close> and
  \<^verbatim>\<open>getMinutes()\<close> read the local time of day, here UTC shifted by \<open>tz_offset\<close> minutes.
  \<^verbatim>\<open>new Date().toISOString().split('T')[0]\<close> is the calendar date in UTC.
  \<^verbatim>\<open>NetInfo.fetch()\<close> takes \<open>net_delay\<close> milliseconds and answers with \<open>netinfo\<close>.
\<close>

definition getHours :: "world \<Rightarrow> nat" where
  "getHours w = nat (((clock w div 60000 + tz_offset w) mod 1440) div 60)"

definition getMinutes :: "world \<Rightarrow> nat" where
  "getMinutes w = nat (((clock w div 60000 + tz_offset w) mod 1440) mod 60)"

definition isInPenaltyPeriod :: "world \<Rightarrow> bool" where
  "isInPenaltyPeriod w = isInPenaltyPeriod_at (getHours w) (getMinutes w)"

definition toISODate :: "int \<Rightarrow> int" where
  "toISODate t = t div 86400000"

definition NetInfo_fetch :: "world \<Rightarrow> net_reply \<times> world" where
  "NetInfo_fetch w = (netinfo w, w\<lparr>clock := clock w + net_delay w\<rparr>)"

subsection \<open>useMonitoringSystem\<close>

text \<open>
  The refs of the hook, and the number of times it has called the prop
  \<^verbatim>\<open>onPenaltyAdded\<close>. The prop \<^verbatim>\<open>currentUser\<close>, the snapshot the callbacks close over, is
  an argument of each function.
\<close>

record monitor =
  isMountedRef :: bool
  lastPingRef :: int
  onPenaltyAdded_calls :: nat

text \<open>
  A call returns \<open>Inr ()\<close> when its promise resolves and \<open>Inl e\<close> when it rejects with
  \<open>e\<close>, together with the state it leaves.
\<close>

type_synonym 's outcome = "(exn + unit) \<times> 's"

text \<open>The \<^verbatim>\<open>try\<close> block of \<^verbatim>\<open>addPenalty\<close>.\<close>

definition addPenalty_try :: "user \<Rightarrow> monitor \<times> world \<Rightarrow> (monitor \<times> world) outcome" where
  "addPenalty_try currentUser s =
     (let (m, w) = s;
          today = toISODate (clock w);
          ((existingPenalty, checkError), w1) = select_active_penalty_on (u_id currentUser) today w
      in case fatal checkError of
           Some c \<Rightarrow> (Inl (PostgrestError c), m, w1)
         | None \<Rightarrow>
             (case existingPenalty of
                Some _ \<Rightarrow> (Inr (), m, w1)
              | None \<Rightarrow>
                  (let (insertError, w2) = insert_penalty (u_id currentUser) today w1
                   in case insertError of
                        Some c \<Rightarrow> (Inl (PostgrestError c), m, w2)
                      | None \<Rightarrow>
                          (let (updateError, w3) =
                                 update_users (u_id currentUser)
                                   (no_update\<lparr>set_penalty_count :=
                                      Some (penalty_count currentUser + 1)\<rparr>) w2
                           in case updateError of
                                Some c \<Rightarrow> (Inl (PostgrestError c), m, w3)
                              | None \<Rightarrow>
                                  (Inr (),
                                   (if isMountedRef m
                                    then m\<lparr>onPenaltyAdded_calls := onPenaltyAdded_calls m + 1\<rparr>
                                    else m),
                                   w3)))))"

definition addPenalty :: "user option \<Rightarrow> monitor \<times> world \<Rightarrow> (monitor \<times> world) outcome" where
  "addPenalty currentUser s =
     (let (m, w) = s
      in case currentUser of
           None \<Rightarrow> (Inr (), s)
         | Some cu \<Rightarrow>
             if \<not> isInPenaltyPeriod w \<or> \<not> isMountedRef m then (Inr (), s)
             else (case addPenalty_try cu s of
                     (Inl error, m', w') \<Rightarrow>
                       (Inr (), m', console_error ''Error adding penalty:'' error w')
                   | (Inr r, s') \<Rightarrow> (Inr r, s')))"

text \<open>The \<^verbatim>\<open>try\<close> block of \<^verbatim>\<open>pingServer\<close>.\<close>

definition pingServer_try :: "user \<Rightarrow> monitor \<times> world \<Rightarrow> (monitor \<times> world) outcome" where
  "pingServer_try currentUser s =
     (let (m, w) = s;
          startTime = clock w;
          (netInfo, w0) = NetInfo_fetch w
      in case netInfo of
           NetInfoRejected \<Rightarrow> (Inl NetInfoFailure, m, w0)
         | NetInfoState isConnected isInternetReachable \<Rightarrow>
             if isConnected = Some True \<and> isInternetReachable = Some True
             then
               (let ((dat, error), w1) = select_user_id (u_id currentUser) w0;
                    responseTime = clock w1 - startTime;
                    w2 = (if error \<noteq> None \<or> responseTime > 1000
                          then snd (insert_activity (u_id currentUser) (clock w1) responseTime
                                      (error = None) w1)
                          else w1);
                    w3 = (if error \<noteq> None
                          then snd (update_users (u_id currentUser)
                                      (no_update\<lparr>set_is_online := Some False,
                                                 set_last_seen := Some (clock w2)\<rparr>) w2)
                          else snd (update_users (u_id currentUser)
                                      (no_update\<lparr>set_is_online := Some True,
                                                 set_last_seen := Some (clock w2)\<rparr>) w2))
                in if error = None \<and> isInPenaltyPeriod w3
                   then addPenalty (Some currentUser) (m, w3)
                   else (Inr (), m, w3))
             else
               (let w1 = snd (update_users (u_id currentUser)
                                (no_update\<lparr>set_is_online := Some False,
                                           set_last_seen := Some (clock w0)\<rparr>) w0)
                in (Inr (), m, w1)))"

definition pingServer :: "user option \<Rightarrow> monitor \<times> world \<Rightarrow> (monitor \<times> world) outcome" where
  "pingServer currentUser s =
     (let (m, w) = s
      in case currentUser of
           None \<Rightarrow> (Inr (), s)
         | Some cu \<Rightarrow>
             if \<not> isMountedRef m then (Inr (), s)
             else (let now = clock w
                   in if now - lastPingRef m < 15000 then (Inr (), s)
                      else (case pingServer_try cu (m\<lparr>lastPingRef := now\<rparr>, w) of
                              (Inl error, m', w') \<Rightarrow>
                                (Inr (), m', console_error ''Ping error:'' error w')
                            | (Inr r, s') \<Rightarrow> (Inr r, s'))))"

text \<open>
  The callback of the second timer of \<^verbatim>\<open>startMonitoring\<close>:
  \<^verbatim>\<open>if (isInPenaltyPeriod()) addPenalty()\<close>.
\<close>

definition penaltyCheck :: "user option \<Rightarrow> monitor \<times> world \<Rightarrow> (monitor \<times> world) outcome" where
  "penaltyCheck currentUser s =
     (if isInPenaltyPeriod (snd s) then addPenalty currentUser s else (Inr (), s))"

text \<open>
  \<^verbatim>\<open>addPenalty\<close> called once at each of the given times, each call after the one before it
  has returned.
\<close>

fun addPenalty_times :: "user option \<Rightarrow> int list \<Rightarrow> monitor \<times> world \<Rightarrow> monitor \<times> world" where
  "addPenalty_times currentUser [] s = s"
| "addPenalty_times currentUser (t # ts) s =
     addPenalty_times currentUser ts
       (snd (addPenalty currentUser (fst s, (snd s)\<lparr>clock := t\<rparr>)))"

subsection \<open>useUserManager\<close>

record userManager =
  um_currentUser :: "user option"
  um_loading :: bool
  um_isMountedRef :: bool
  deviceName :: string
  um_cache :: "user cache_hook"

definition cacheKey :: "string \<Rightarrow> string" where
  "cacheKey name = ''user_'' @ name"

definition two_minutes :: int where
  "two_minutes = 2 * 60 * 1000"

text \<open>The \<^verbatim>\<open>try\<close> block of \<^verbatim>\<open>initializeUser\<close>.\<close>

definition initializeUser_try ::
  "userManager \<times> world \<Rightarrow> (userManager \<times> world) outcome" where
  "initializeUser_try s =
     (let (um0, w) = s;
          mounted = um_isMountedRef um0;
          um1 = (if mounted then um0\<lparr>um_loading := True\<rparr> else um0);
          key = cacheKey (deviceName um1);
          (cachedUser, c1) = cache_get (clock w) key (um_cache um1);
          um2 = um1\<lparr>um_cache := c1\<rparr>
      in case cachedUser of
           Some u \<Rightarrow>
             (Inr (),
              (if mounted then um2\<lparr>um_currentUser := Some u, um_loading := False\<rparr> else um2), w)
         | None \<Rightarrow>
             (let ((existingUser, fetchError), w1) = select_user_by_device (deviceName um2) w
              in case fatal fetchError of
                   Some c \<Rightarrow> (Inl (PostgrestError c), um2, w1)
                 | None \<Rightarrow>
                     (case existingUser of
                        Some eu \<Rightarrow>
                          (let ((updatedUser, updateError), w2) =
                                 update_users_returning (u_id eu)
                                   (no_update\<lparr>set_last_seen := Some (clock w1),
                                              set_is_online := Some True\<rparr>) w1
                           in case updateError of
                                Some c \<Rightarrow> (Inl (PostgrestError c), um2, w2)
                              | None \<Rightarrow>
                                  (let um3 = um2\<lparr>um_cache :=
                                         cache_set (clock w2) key updatedUser two_minutes
                                           (um_cache um2)\<rparr>
                                   in (Inr (),
                                       (if mounted then um3\<lparr>um_currentUser := updatedUser\<rparr>
                                        else um3),
                                       w2)))
                      | None \<Rightarrow>
                          (let ((newUser, createError), w2) =
                                 insert_user (deviceName um2) True (clock w1) w1
                           in case createError of
                                Some c \<Rightarrow> (Inl (PostgrestError c), um2, w2)
                              | None \<Rightarrow>
                                  (let um3 = um2\<lparr>um_cache :=
                                         cache_set (clock w2) key newUser two_minutes
                                           (um_cache um2)\<rparr>
                                   in (Inr (),
                                       (if mounted then um3\<lparr>um_currentUser := newUser\<rparr>
                                        else um3),
                                       w2))))))"

text \<open>
  \<^verbatim>\<open>initializeUser\<close>: the guard on the device name, the \<^verbatim>\<open>try\<close> block, its \<^verbatim>\<open>catch\<close>
  and its \<^verbatim>\<open>finally\<close>.
\<close>

definition initializeUser :: "userManager \<times> world \<Rightarrow> (userManager \<times> world) outcome" where
  "initializeUser s =
     (let (um0, w0) = s
      in if deviceName um0 = [] \<or> deviceName um0 = ''Unknown Device'' then (Inr (), s)
         else (let (r, um, w) = initializeUser_try s;
                   w' = (case r of
                           Inl error \<Rightarrow> console_error ''Error initializing user:'' error w
                         | Inr _ \<Rightarrow> w);
                   um' = (if um_isMountedRef um then um\<lparr>um_loading := False\<rparr> else um)
               in (Inr (), um', w')))"

definition refreshUser :: "userManager \<times> world \<Rightarrow> (userManager \<times> world) outcome" where
  "refreshUser s =
     (let (um, w) = s;
          key = cacheKey (deviceName um)
      in initializeUser (um\<lparr>um_cache := cache_set (clock w) key None 0 (um_cache um)\<rparr>, w))"

subsection \<open>The settings screen\<close>

record settings =
  st_users :: "user list"
  st_loading :: bool
  refreshing :: bool
  st_cache :: "user list cache_hook"

definition loadUsers_try :: "settings \<times> world \<Rightarrow> (settings \<times> world) outcome" where
  "loadUsers_try s =
     (let (st0, w) = s;
          (cachedUsers, c1) = cache_get (clock w) ''users_list'' (st_cache st0);
          st1 = st0\<lparr>st_cache := c1\<rparr>
      in case (if refreshing st1 then None else cachedUsers) of
           Some us \<Rightarrow> (Inr (), st1\<lparr>st_users := us\<rparr>, w)
         | None \<Rightarrow>
             (let st2 = (if \<not> refreshing st1 then st1\<lparr>st_loading := True\<rparr> else st1);
                  ((dat, error), w1) = select_users w
              in case error of
                   Some c \<Rightarrow> (Inl (PostgrestError c), st2, w1)
                 | None \<Rightarrow>
                     (let usersData = (case dat of Some us \<Rightarrow> us | None \<Rightarrow> [])
                      in (Inr (),
                          st2\<lparr>st_users := usersData,
                              st_cache := cache_set (clock w1) ''users_list'' (Some usersData)
                                            (60 * 1000) (st_cache st2)\<rparr>,
                          w1))))"

definition loadUsers :: "settings \<times> world \<Rightarrow> (settings \<times> world) outcome" where
  "loadUsers s =
     (let (r, st, w) = loadUsers_try s;
          w' = (case r of
                  Inl error \<Rightarrow>
                    Alert_alert ''Error'' ''Failed to load users''
                      (console_error ''Error loading users:'' error w)
                | Inr _ \<Rightarrow> w);
          st' = (if \<not> refreshing st then st\<lparr>st_loading := False\<rparr> else st)
      in (Inr (), st', w'))"

text \<open>The button of the confirmation dialog that the user presses.\<close>

datatype button = Cancel | Reduce

text \<open>
  The \<^verbatim>\<open>try\<close> block of the \<^verbatim>\<open>onPress\<close> handler of the Reduce button; \<open>reducer\<close> is the
  \<^verbatim>\<open>currentUser\<close> of the screen.
\<close>

definition reduce_onPress_try ::
  "user \<Rightarrow> user \<Rightarrow> settings \<times> userManager \<times> world \<Rightarrow> (settings \<times> userManager \<times> world) outcome"
  where
  "reduce_onPress_try reducer user s =
     (let (st, um, w) = s;
          ((found, findError), w1) = select_latest_active_penalty (u_id user) w
      in case fatal findError of
           Some c \<Rightarrow> (Inl (PostgrestError c), st, um, w1)
         | None \<Rightarrow>
             (case found of
                None \<Rightarrow> (Inr (), st, um, Alert_alert ''Error'' ''No penalties found to reduce'' w1)
              | Some p \<Rightarrow>
                  (let (updatePenaltyError, w2) =
                         update_penalty (p_id p) (u_id reducer) (clock w1) w1
                   in case updatePenaltyError of
                        Some c \<Rightarrow> (Inl (PostgrestError c), st, um, w2)
                      | None \<Rightarrow>
                          (let (updateUserError, w3) =
                                 update_users (u_id user)
                                   (no_update\<lparr>set_penalty_count :=
                                                Some (max 0 (penalty_count user - 1)),
                                              set_updated_at := Some (clock w2)\<rparr>) w2
                           in case updateUserError of
                                Some c \<Rightarrow> (Inl (PostgrestError c), st, um, w3)
                              | None \<Rightarrow>
                                  (let w4 = Alert_alert ''Success''
                                              ''Penalty reduced successfully!'' w3;
                                       (r5, st5, w5) = loadUsers (st, w4);
                                       (r6, um6, w6) = refreshUser (um, w5)
                                   in (case r5 of
                                         Inl e \<Rightarrow> (Inl e, st5, um, w5)
                                       | Inr _ \<Rightarrow>
                                           (case r6 of
                                              Inl e \<Rightarrow> (Inl e, st5, um6, w6)
                                            | Inr _ \<Rightarrow> (Inr (), st5, um6, w6))))))))"

definition reduce_onPress ::
  "user \<Rightarrow> user \<Rightarrow> settings \<times> userManager \<times> world \<Rightarrow> (settings \<times> userManager \<times> world) outcome"
  where
  "reduce_onPress reducer user s =
     (case reduce_onPress_try reducer user s of
        (Inl error, st, um, w) \<Rightarrow>
          (Inr (), st, um,
           Alert_alert ''Error'' ''Failed to reduce penalty''
             (console_error ''Error reducing penalty:'' error w))
      | (Inr r, s') \<Rightarrow> (Inr r, s'))"

text \<open>
  \<^verbatim>\<open>reducePenalty(user)\<close> followed by the press of \<open>choice\<close> in the dialog it opens. The
  reducer is the \<^verbatim>\<open>currentUser\<close> of the screen's \<^verbatim>\<open>useUserManager\<close>.
\<close>

definition reducePenalty ::
  "user \<Rightarrow> button \<Rightarrow> settings \<times> userManager \<times> world \<Rightarrow> (settings \<times> userManager \<times> world) outcome"
  where
  "reducePenalty user choice s =
     (let (st, um, w) = s
      in case um_currentUser um of
           None \<Rightarrow> (Inr (), s)
         | Some reducer \<Rightarrow>
             if penalty_count user = 0
             then (Inr (), st, um,
                   Alert_alert ''No Penalties'' ''This user has no penalties to reduce'' w)
             else if penalty_count user = 0
             then (Inr (), st, um,
                   Alert_alert ''No Penalties'' ''This user has no penalties to reduce'' w)
             else (let w1 = Alert_alert ''Reduce Penalty''
                              (''Reduce one penalty for '' @ device_name user @ ''?'') w
                   in case choice of
                        Cancel \<Rightarrow> (Inr (), st, um, w1)
                      | Reduce \<Rightarrow> reduce_onPress reducer user (st, um, w1)))"

subsection \<open>Notions used to state the properties\<close>

text \<open>
  The world a tick of \<^verbatim>\<open>pingServer\<close> leaves when the device is connected, before the
  penalty check: after the lookup, the activity insert (if any) and the status update.
\<close>

definition after_status :: "user \<Rightarrow> world \<Rightarrow> world" where
  "after_status u w =
     (let r = select_user_id (u_id u) (snd (NetInfo_fetch w));
          error = snd (fst r);
          w1 = snd r;
          responseTime = clock w1 - clock w;
          w2 = (if error \<noteq> None \<or> responseTime > 1000
                then snd (insert_activity (u_id u) (clock w1) responseTime (error = None) w1)
                else w1)
      in snd (update_users (u_id u)
                (no_update\<lparr>set_is_online := Some (error = None),
                           set_last_seen := Some (clock w2)\<rparr>) w2))"

text \<open>Every store request still to come succeeds.\<close>

definition no_failures :: "world \<Rightarrow> bool" where
  "no_failures w = (\<forall>r \<in> set (replies w). snd r = None)"

text \<open>The requests sent since the world \<open>w\<close>, in a later world \<open>w'\<close>.\<close>

definition sent_since :: "world \<Rightarrow> world \<Rightarrow> request list" where
  "sent_since w w' = drop (length (requests w)) (requests w')"

text \<open>The replies of the store that the requests sent between \<open>w\<close> and \<open>w'\<close> have used up.\<close>

definition used_replies :: "world \<Rightarrow> world \<Rightarrow> (int \<times> pg_code option) list" where
  "used_replies w w' = take (length (sent_since w w')) (replies w)"

fun is_activity_insert :: "request \<Rightarrow> bool" where
  "is_activity_insert (InsertActivity _ _ _ _) = True"
| "is_activity_insert _ = False"

text \<open>
  The participant \<open>uid\<close> is among the rows \<open>us\<close>, and every row of theirs has the
  penalty count \<open>c\<close>.
\<close>

definition has_count :: "uuid \<Rightarrow> int \<Rightarrow> user list \<Rightarrow> bool" where
  "has_count uid c us =
     (uid \<in> set (map u_id us) \<and> (\<forall>u \<in> set us. u_id u = uid \<longrightarrow> penalty_count u = c))"

subsection \<open>Example states\<close>

text \<open>
  One participant with two penalties, a mounted monitor that has not pinged yet, and a
  store holding that participant at 22:31 UTC of day 0, with the device online.
\<close>

definition example_user :: user where
  "example_user = \<lparr>u_id = 1, device_name = ''DeviceA'', penalty_count = 2, last_seen = 0,
                     is_online = False, u_created_at = 0, updated_at = 0\<rparr>"

definition example_monitor :: monitor where
  "example_monitor = \<lparr>isMountedRef = True, lastPingRef = 0, onPenaltyAdded_calls = 0\<rparr>"

definition example_world :: world where
  "example_world = \<lparr>users = [example_user], penalties = [], user_activity = [],
                      clock = 81060000, tz_offset = 0,
                      netinfo = NetInfoState (Some True) (Some True), net_delay = 5,
                      replies = [], requests = [], console = [], alerts = []\<rparr>"

text \<open>The same store at 12:00 UTC of day 0.\<close>

definition noon_world :: world where
  "noon_world = example_world\<lparr>clock := 43200000\<rparr>"

text \<open>The same store, in which the participant's counter has moved on to 5.\<close>

definition stale_world :: world where
  "stale_world = example_world\<lparr>users := [example_user\<lparr>penalty_count := 5\<rparr>]\<rparr>"

text \<open>The same store, about to accept a lookup and then to refuse an insert.\<close>

definition failing_world :: world where
  "failing_world = example_world\<lparr>replies := [(1, None), (1, Some ''08006'')]\<rparr>"

text \<open>The same store at 05:29 UTC, with the internet not reachable.\<close>

definition offline_world :: world where
  "offline_world = example_world\<lparr>clock := 19740000,
                     netinfo := NetInfoState (Some True) (Some False)\<rparr>"

text \<open>The same store, about to answer the next request after two seconds.\<close>

definition slow_world :: world where
  "slow_world = example_world\<lparr>replies := [(2000, None)]\<rparr>"

text \<open>The same store, about to refuse the next three requests.\<close>

definition refusing_world :: world where
  "refusing_world =
     example_world\<lparr>replies := [(1, Some ''08006''), (1, Some ''08006''), (1, Some ''08006'')]\<rparr>"

text \<open>Three times inside the window of day 0: 22:31, 22:33 and 22:35 UTC.\<close>

definition three_calls :: "int list" where
  "three_calls = [81060000, 81180000, 81300000]"

text \<open>A mounted user manager of the device \<^verbatim>\<open>DeviceB\<close>, with nothing cached.\<close>

definition example_manager :: userManager where
  "example_manager = \<lparr>um_currentUser = None, um_loading = True, um_isMountedRef = True,
                        deviceName = ''DeviceB'', um_cache = cache_empty\<rparr>"

text \<open>A second participant, who has no penalty; the settings screen as it opens; a user
  manager whose current user is the second participant.\<close>

definition other_user :: user where
  "other_user = \<lparr>u_id = 2, device_name = ''DeviceB'', penalty_count = 0, last_seen = 0,
                   is_online = True, u_created_at = 0, updated_at = 0\<rparr>"

definition example_settings :: settings where
  "example_settings = \<lparr>st_users = [], st_loading = False, refreshing = False,
                         st_cache = cache_empty\<rparr>"

definition reducer_manager :: userManager where
  "reducer_manager = example_manager\<lparr>um_currentUser := Some other_user\<rparr>"

text \<open>The store with both participants and no penalty record.\<close>

definition two_user_world :: world where
  "two_user_world = example_world\<lparr>users := [example_user, other_user]\<rparr>"

text \<open>
  The store with both participants and three penalty records of the first: two active
  ones, created at 100 and at 200, and one that the second participant has resolved.
\<close>

definition penalized_world :: world where
  "penalized_world = two_user_world\<lparr>penalties :=
     [\<lparr>p_id = 1, p_user_id = 1, penalty_date = 0, removed_by = None, removed_at = None,
       p_created_at = 100\<rparr>,
      \<lparr>p_id = 2, p_user_id = 1, penalty_date = 1, removed_by = None, removed_at = None,
       p_created_at = 200\<rparr>,
      \<lparr>p_id = 3, p_user_id = 1, penalty_date = 2, removed_by = Some 2, removed_at = Some 350,
       p_created_at = 300\<rparr>]\<rparr>"

section \<open>Properties\<close>

subsection \<open>The penalty window\<close>

text \<open>
  C2. For every minute of the day \<open>m = hour * 60 + minute\<close>, \<^verbatim>\<open>isInPenaltyPeriod\<close> holds
  exactly when \<open>m \<ge> 1350\<close> or \<open>m \<le> 330\<close>, on any two readings and so on those of any
  clock; it holds at 22:30 and at 05:30, and it does not hold at 22:29 and at 05:31.
\<close>

theorem C2_penalty_window:
  "isInPenaltyPeriod_at hour minute = (hour * 60 + minute \<ge> 1350 \<or> hour * 60 + minute \<le> 330)
   \<and> isInPenaltyPeriod w
       = (getHours w * 60 + getMinutes w \<ge> 1350 \<or> getHours w * 60 + getMinutes w \<le> 330)
   \<and> isInPenaltyPeriod_at 22 30 = True
   \<and> isInPenaltyPeriod_at 5 30 = True
   \<and> isInPenaltyPeriod_at 22 29 = False
   \<and> isInPenaltyPeriod_at 5 31 = False"
  by (simp add: isInPenaltyPeriod_def isInPenaltyPeriod_at_def penaltyStart_def penaltyEnd_def
        Let_def)

subsection \<open>The cache\<close>

lemma cache_get_fresh:
  "now' - now \<le> t \<Longrightarrow> cache_get now' k (cache_set now k v t h) = (v, cache_set now k v t h)"
  by (simp add: cache_get_def cache_set_def Let_def)

lemma cache_get_expired:
  "now' - now > t \<Longrightarrow>
   cache_get now' k (cache_set now k v t h) = (None, cache_remove k (cache_set now k v t h))"
  by (simp add: cache_get_def cache_set_def cache_remove_def Let_def)

lemma cache_remove_absent: "cacheRef (cache_remove k h) k = None"
  by (simp add: cache_remove_def Let_def)

lemma cache_set_overwrite:
  "cache_set now2 k v2 t2 (cache_set now1 k v1 t1 h) = cache_set now2 k v2 t2 h"
  by (simp add: cache_set_def Let_def)

lemma cache_set_entry:
  "cacheRef (cache_set now k v t h) k = Some \<lparr>data = v, timestamp = now, ttl = t\<rparr>"
  by (simp add: cache_set_def Let_def)

text \<open>
  C4. After \<open>set(k, v, t)\<close> at time \<open>now\<close>: a \<open>get(k)\<close> at a time \<open>now'\<close> by which no more
  than \<open>t\<close> has elapsed returns \<open>v\<close> and leaves the cache as it is; a \<open>get(k)\<close> once more than
  \<open>t\<close> has elapsed returns \<^verbatim>\<open>null\<close> and removes the entry; and a later \<open>set\<close> on the same
  key leaves exactly the cache that this \<open>set\<close> alone would have left, whose entry for \<open>k\<close>
  has the new value, the new ttl and the time of the later \<open>set\<close> as its timestamp.
\<close>

theorem C4_cache_set_get:
  fixes h :: "'v cache_hook"
  shows "(now' - now \<le> t \<longrightarrow>
            cache_get now' k (cache_set now k v t h) = (v, cache_set now k v t h))
       \<and> (now' - now > t \<longrightarrow>
            fst (cache_get now' k (cache_set now k v t h)) = None
          \<and> cacheRef (snd (cache_get now' k (cache_set now k v t h))) k = None
          \<and> cache (snd (cache_get now' k (cache_set now k v t h))) k = None)
       \<and> cache_set now2 k v2 t2 (cache_set now k v t h) = cache_set now2 k v2 t2 h
       \<and> cacheRef (cache_set now2 k v2 t2 (cache_set now k v t h)) k
            = Some \<lparr>data = v2, timestamp = now2, ttl = t2\<rparr>"
proof (intro conjI impI)
  assume "now' - now \<le> t"
  then show "cache_get now' k (cache_set now k v t h) = (v, cache_set now k v t h)"
    by (rule cache_get_fresh)
next
  assume late: "now' - now > t"
  show "fst (cache_get now' k (cache_set now k v t h)) = None"
    by (simp add: cache_get_expired [OF late])
  show "cacheRef (snd (cache_get now' k (cache_set now k v t h))) k = None"
    by (simp add: cache_get_expired [OF late] cache_remove_absent)
  show "cache (snd (cache_get now' k (cache_set now k v t h))) k = None"
    by (simp add: cache_get_expired [OF late] cache_remove_def Let_def)
next
  show "cache_set now2 k v2 t2 (cache_set now k v t h) = cache_set now2 k v2 t2 h"
    by (rule cache_set_overwrite)
  show "cacheRef (cache_set now2 k v2 t2 (cache_set now k v t h)) k
          = Some \<lparr>data = v2, timestamp = now2, ttl = t2\<rparr>"
    by (rule cache_set_entry)
qed

theorem C4_cache_set_get_witness:
  "cache_get 1000 ''k'' (cache_set 1000 ''k'' (Some (7::nat)) 120000 cache_empty)
     = (Some 7, cache_set 1000 ''k'' (Some 7) 120000 cache_empty)
   \<and> fst (cache_get 121001 ''k'' (cache_set 1000 ''k'' (Some (7::nat)) 120000 cache_empty)) = None
   \<and> cacheRef (snd (cache_get 121001 ''k'' (cache_set 1000 ''k'' (Some (7::nat)) 120000 cache_empty))) ''k'' = None
   \<and> cacheRef (cache_set 2000 ''k'' (Some 8) 60000 (cache_set 1000 ''k'' (Some (7::nat)) 120000 cache_empty)) ''k''
        = Some \<lparr>data = Some 8, timestamp = 2000, ttl = 60000\<rparr>"
  using C4_cache_set_get [of 1000 1000 120000 "''k''" "Some (7::nat)" cache_empty 2000 "Some 8" 60000]
        C4_cache_set_get [of 121001 1000 120000 "''k''" "Some (7::nat)" cache_empty 2000 "Some 8" 60000]
  by simp

subsection \<open>What each store request leaves behind\<close>

lemma await_reply_fields [simp]:
  "users (snd (await_reply rq w)) = users w"
  "penalties (snd (await_reply rq w)) = penalties w"
  "user_activity (snd (await_reply rq w)) = user_activity w"
  "tz_offset (snd (await_reply rq w)) = tz_offset w"
  "netinfo (snd (await_reply rq w)) = netinfo w"
  "net_delay (snd (await_reply rq w)) = net_delay w"
  "console (snd (await_reply rq w)) = console w"
  "alerts (snd (await_reply rq w)) = alerts w"
  "requests (snd (await_reply rq w)) = requests w @ [rq]"
  "replies (snd (await_reply rq w)) = tl (replies w)"
  by (auto simp: await_reply_def split: list.splits)

lemma no_failures_tl: "no_failures w \<Longrightarrow> replies w' = tl (replies w) \<Longrightarrow> no_failures w'"
  by (cases "replies w") (auto simp: no_failures_def)

lemma await_reply_ok [simp]: "no_failures w \<Longrightarrow> fst (await_reply rq w) = None"
  by (auto simp: await_reply_def no_failures_def split: list.splits)

lemma user_exists_await [simp]: "user_exists uid (snd (await_reply rq w)) = user_exists uid w"
  by (simp add: user_exists_def)

lemma select_active_penalty_on_world [simp]:
  "snd (select_active_penalty_on uid d w) = snd (await_reply (SelectActivePenaltyOn uid d) w)"
  by (simp add: select_active_penalty_on_def case_prod_beta split: option.splits)

lemma select_active_penalty_on_ok:
  "no_failures w \<Longrightarrow>
   fst (select_active_penalty_on uid d w) = single (filter (active_on uid d) (penalties w))"
  by (simp add: select_active_penalty_on_def case_prod_beta)

lemma insert_penalty_fields [simp]:
  "users (snd (insert_penalty uid d w)) = users w"
  "user_activity (snd (insert_penalty uid d w)) = user_activity w"
  "tz_offset (snd (insert_penalty uid d w)) = tz_offset w"
  "console (snd (insert_penalty uid d w)) = console w"
  "alerts (snd (insert_penalty uid d w)) = alerts w"
  "requests (snd (insert_penalty uid d w)) = requests w @ [InsertPenalty uid d]"
  "replies (snd (insert_penalty uid d w)) = tl (replies w)"
  by (simp_all add: insert_penalty_def case_prod_beta split: option.splits)

lemma insert_penalty_failed:
  "fst (insert_penalty uid d w) = Some c \<Longrightarrow>
   penalties (snd (insert_penalty uid d w)) = penalties w"
  by (simp add: insert_penalty_def case_prod_beta split: option.splits if_splits)

lemma insert_penalty_done:
  "fst (insert_penalty uid d w) = None \<Longrightarrow>
   \<exists>p. penalties (snd (insert_penalty uid d w)) = penalties w @ [p] \<and> active_on uid d p"
  by (simp add: insert_penalty_def case_prod_beta active_on_def split: option.splits if_splits)

lemma insert_penalty_ok:
  "no_failures w \<Longrightarrow> user_exists uid w \<Longrightarrow> fst (insert_penalty uid d w) = None"
  by (simp add: insert_penalty_def case_prod_beta)

lemma update_users_fields [simp]:
  "penalties (snd (update_users uid upd w)) = penalties w"
  "user_activity (snd (update_users uid upd w)) = user_activity w"
  "tz_offset (snd (update_users uid upd w)) = tz_offset w"
  "console (snd (update_users uid upd w)) = console w"
  "alerts (snd (update_users uid upd w)) = alerts w"
  "requests (snd (update_users uid upd w)) = requests w @ [UpdateUser uid upd]"
  "replies (snd (update_users uid upd w)) = tl (replies w)"
  by (simp_all add: update_users_def case_prod_beta split: option.splits)

lemma update_users_failed:
  "fst (update_users uid upd w) = Some c \<Longrightarrow> users (snd (update_users uid upd w)) = users w"
  by (simp add: update_users_def case_prod_beta split: option.splits)

lemma update_users_done:
  "fst (update_users uid upd w) = None \<Longrightarrow>
   users (snd (update_users uid upd w))
     = update_rows uid upd (clock (snd (update_users uid upd w))) (users w)"
  by (simp add: update_users_def case_prod_beta split: option.splits)

lemma update_users_ok: "no_failures w \<Longrightarrow> fst (update_users uid upd w) = None"
  by (simp add: update_users_def case_prod_beta)

subsection \<open>Penalty application\<close>

text \<open>
  C9. \<^verbatim>\<open>addPenalty\<close> checks the resolved participant and the penalty window itself, before
  anything else: when no participant is resolved or the time is outside the window, it
  returns with the state as it was, so it sends no request (no query, no insert, no update)
  and the tables are as they were.
\<close>

theorem C9_addPenalty_guard:
  assumes "currentUser = None \<or> \<not> isInPenaltyPeriod (snd s)"
  shows "addPenalty currentUser s = (Inr (), s)
       \<and> sent_since (snd s) (snd (snd (addPenalty currentUser s))) = []
       \<and> penalties (snd (snd (addPenalty currentUser s))) = penalties (snd s)
       \<and> users (snd (snd (addPenalty currentUser s))) = users (snd s)"
proof -
  have "addPenalty currentUser s = (Inr (), s)"
    using assms by (auto simp: addPenalty_def case_prod_beta split: option.splits)
  then show ?thesis by (simp add: sent_since_def)
qed

theorem C9_addPenalty_guard_witness:
  "\<not> isInPenaltyPeriod noon_world
   \<and> addPenalty (Some example_user) (example_monitor, noon_world)
       = (Inr (), example_monitor, noon_world)
   \<and> addPenalty None (example_monitor, example_world) = (Inr (), example_monitor, example_world)"
proof -
  have outside: "\<not> isInPenaltyPeriod noon_world"
    by code_simp
  show ?thesis
    using outside
      C9_addPenalty_guard [of "Some example_user" "(example_monitor, noon_world)"]
      C9_addPenalty_guard [of None "(example_monitor, example_world)"]
    by simp
qed

text \<open>
  C10. When \<^verbatim>\<open>addPenalty\<close> inserts a penalty record, the requests it sends are the lookup,
  the insert and one update of the participant whose \<^verbatim>\<open>penalty_count\<close> is the count of the
  snapshot \<^verbatim>\<open>currentUser\<close> plus 1; when the call logs no error, every stored row of the
  participant then has that count, whatever count the store held before.
\<close>

theorem C10_absolute_write:
  assumes "addPenalty (Some cu) (m, w) = (r, m', w')" and "penalties w' \<noteq> penalties w"
  shows "sent_since w w' =
           [SelectActivePenaltyOn (u_id cu) (toISODate (clock w)),
            InsertPenalty (u_id cu) (toISODate (clock w)),
            UpdateUser (u_id cu) (no_update\<lparr>set_penalty_count := Some (penalty_count cu + 1)\<rparr>)]
       \<and> (console w' = console w \<longrightarrow>
            users w' = update_rows (u_id cu)
                         (no_update\<lparr>set_penalty_count := Some (penalty_count cu + 1)\<rparr>)
                         (clock w') (users w)
          \<and> (\<forall>u \<in> set (users w'). u_id u = u_id cu \<longrightarrow> penalty_count u = penalty_count cu + 1))"
  using assms
  by (auto simp: addPenalty_def addPenalty_try_def console_error_def Let_def case_prod_beta
         insert_penalty_failed update_users_done sent_since_def update_rows_def apply_update_def
         no_update_def
      split: option.splits if_splits sum.splits)

theorem C10_absolute_write_witness:
  "penalties (snd (snd (addPenalty (Some example_user) (example_monitor, stale_world))))
     \<noteq> penalties stale_world
   \<and> map penalty_count (users stale_world) = [5]
   \<and> penalty_count example_user = 2
   \<and> map penalty_count
        (users (snd (snd (addPenalty (Some example_user) (example_monitor, stale_world))))) = [3]"
proof -
  let ?out = "addPenalty (Some example_user) (example_monitor, stale_world)"
  have run: "?out = (fst ?out, fst (snd ?out), snd (snd ?out))"
    by simp
  have inserted: "penalties (snd (snd ?out)) \<noteq> penalties stale_world"
    by code_simp
  have quiet: "console (snd (snd ?out)) = console stale_world"
    by code_simp
  have "\<forall>u \<in> set (users (snd (snd ?out))). u_id u = u_id example_user \<longrightarrow>
          penalty_count u = penalty_count example_user + 1"
    using C10_absolute_write [OF run inserted] quiet by blast
  moreover have "map u_id (users (snd (snd ?out))) = [1]" "u_id example_user = 1"
      "penalty_count example_user = 2" "map penalty_count (users stale_world) = [5]"
    by code_simp+
  ultimately show ?thesis
    using inserted by (cases "users (snd (snd ?out))") auto
qed

subsection \<open>The probe tick\<close>

lemma select_user_id_world [simp]:
  "snd (select_user_id uid w) = snd (await_reply (SelectUserId uid) w)"
  by (simp add: select_user_id_def case_prod_beta split: option.splits)

lemma insert_activity_fields [simp]:
  "users (snd (insert_activity uid ts rt b w)) = users w"
  "penalties (snd (insert_activity uid ts rt b w)) = penalties w"
  "tz_offset (snd (insert_activity uid ts rt b w)) = tz_offset w"
  "console (snd (insert_activity uid ts rt b w)) = console w"
  "alerts (snd (insert_activity uid ts rt b w)) = alerts w"
  "requests (snd (insert_activity uid ts rt b w)) = requests w @ [InsertActivity uid ts rt b]"
  "replies (snd (insert_activity uid ts rt b w)) = tl (replies w)"
  by (simp_all add: insert_activity_def case_prod_beta split: option.splits)

lemma insert_activity_done:
  "fst (insert_activity uid ts rt b w) = None \<Longrightarrow>
   user_activity (snd (insert_activity uid ts rt b w)) = user_activity w @
     [\<lparr>a_id = fresh_uuid (map a_id (user_activity w)), a_user_id = uid, ping_timestamp = ts,
       response_time = rt, a_is_online = b,
       a_created_at = clock (snd (insert_activity uid ts rt b w))\<rparr>]"
  by (simp add: insert_activity_def case_prod_beta split: option.splits if_splits)

lemma NetInfo_fetch_fields [simp]:
  "users (snd (NetInfo_fetch w)) = users w"
  "penalties (snd (NetInfo_fetch w)) = penalties w"
  "user_activity (snd (NetInfo_fetch w)) = user_activity w"
  "tz_offset (snd (NetInfo_fetch w)) = tz_offset w"
  "console (snd (NetInfo_fetch w)) = console w"
  "alerts (snd (NetInfo_fetch w)) = alerts w"
  "requests (snd (NetInfo_fetch w)) = requests w"
  "replies (snd (NetInfo_fetch w)) = replies w"
  "clock (snd (NetInfo_fetch w)) = clock w + net_delay w"
  "fst (NetInfo_fetch w) = netinfo w"
  by (simp_all add: NetInfo_fetch_def)

lemma console_error_fields [simp]:
  "users (console_error msg e w) = users w"
  "penalties (console_error msg e w) = penalties w"
  "user_activity (console_error msg e w) = user_activity w"
  "tz_offset (console_error msg e w) = tz_offset w"
  "alerts (console_error msg e w) = alerts w"
  "requests (console_error msg e w) = requests w"
  "replies (console_error msg e w) = replies w"
  "clock (console_error msg e w) = clock w"
  "console (console_error msg e w) = console w @ [(msg, e)]"
  by (simp_all add: console_error_def)

lemma addPenalty_try_fields [simp]:
  "user_activity (snd (snd (addPenalty_try u s))) = user_activity (snd s)"
  "console (snd (snd (addPenalty_try u s))) = console (snd s)"
  "alerts (snd (snd (addPenalty_try u s))) = alerts (snd s)"
  "tz_offset (snd (snd (addPenalty_try u s))) = tz_offset (snd s)"
  by (simp_all add: addPenalty_try_def Let_def case_prod_beta split: option.splits)

lemma addPenalty_try_requests:
  "\<exists>rs. requests (snd (snd (addPenalty_try u s))) = requests (snd s) @ rs
        \<and> filter is_activity_insert rs = []"
  by (simp add: addPenalty_try_def Let_def case_prod_beta split: option.splits)

lemma addPenalty_resolves [simp]: "fst (addPenalty currentUser s) = Inr ()"
  by (auto simp: addPenalty_def case_prod_beta split: option.splits sum.splits)

lemma addPenalty_world:
  "snd (snd (addPenalty currentUser s)) = snd s
   \<or> (\<exists>u. snd (snd (addPenalty currentUser s)) = snd (snd (addPenalty_try u s)))
   \<or> (\<exists>u e. snd (snd (addPenalty currentUser s))
              = console_error ''Error adding penalty:'' e (snd (snd (addPenalty_try u s))))"
  by (auto simp: addPenalty_def case_prod_beta split: option.splits sum.splits prod.splits)

lemma addPenalty_fields [simp]:
  "user_activity (snd (snd (addPenalty currentUser s))) = user_activity (snd s)"
  "alerts (snd (snd (addPenalty currentUser s))) = alerts (snd s)"
  "tz_offset (snd (snd (addPenalty currentUser s))) = tz_offset (snd s)"
  using addPenalty_world [of currentUser s] by auto

lemma addPenalty_requests:
  "\<exists>rs. requests (snd (snd (addPenalty currentUser s))) = requests (snd s) @ rs
        \<and> filter is_activity_insert rs = []"
  using addPenalty_world [of currentUser s] addPenalty_try_requests [of _ s] by auto

lemma pingServer_try_rejects:
  assumes "fst (pingServer_try u s) = Inl e"
  shows "e = NetInfoFailure \<and> console (snd (snd (pingServer_try u s))) = console (snd s)"
  using assms
  by (auto simp: pingServer_try_def Let_def case_prod_beta split: net_reply.splits if_splits)

text \<open>A failure among the replies a call has used up is the error of one of its requests.\<close>

lemma used_reply:
  "(d, Some c) \<in> set (take (Suc n) (replies w)) \<Longrightarrow>
   fst (await_reply rq w) = Some c \<or> (d, Some c) \<in> set (take n (replies (snd (await_reply rq w))))"
  by (cases "replies w") (auto simp: await_reply_def)

lemma select_active_penalty_on_failure:
  "fst (await_reply (SelectActivePenaltyOn uid day) w) = Some c \<Longrightarrow>
   snd (fst (select_active_penalty_on uid day w)) = Some c"
  by (simp add: select_active_penalty_on_def case_prod_beta)

lemma insert_penalty_failure:
  "fst (await_reply (InsertPenalty uid day) w) = Some c \<Longrightarrow> fst (insert_penalty uid day w) = Some c"
  by (simp add: insert_penalty_def case_prod_beta)

lemma update_users_failure:
  "fst (await_reply (UpdateUser uid upd) w) = Some c \<Longrightarrow> fst (update_users uid upd w) = Some c"
  by (simp add: update_users_def case_prod_beta)

lemma addPenalty_try_throws_failure:
  assumes used: "(d, Some c) \<in> set (used_replies w (snd (snd (addPenalty_try u (m, w)))))"
      and c: "c \<noteq> ''PGRST116''"
  shows "fst (addPenalty_try u (m, w)) = Inl (PostgrestError c)"
proof -
  let ?day = "toISODate (clock w)"
  let ?sel = "select_active_penalty_on (u_id u) ?day w"
  let ?w1 = "snd (await_reply (SelectActivePenaltyOn (u_id u) ?day) w)"
  let ?ins = "insert_penalty (u_id u) ?day ?w1"
  let ?w2 = "snd ?ins"
  let ?upd = "no_update\<lparr>set_penalty_count := Some (penalty_count u + 1)\<rparr>"
  let ?up = "update_users (u_id u) ?upd ?w2"
  have first: "fst (await_reply (SelectActivePenaltyOn (u_id u) ?day) w) = Some c \<Longrightarrow>
               fatal (snd (fst ?sel)) = Some c"
    using c by (simp add: select_active_penalty_on_failure fatal_def)
  show ?thesis
  proof (cases "fatal (snd (fst ?sel))")
    case (Some c1)
    then have out: "fst (addPenalty_try u (m, w)) = Inl (PostgrestError c1)"
        "sent_since w (snd (snd (addPenalty_try u (m, w)))) = [SelectActivePenaltyOn (u_id u) ?day]"
      by (simp_all add: addPenalty_try_def Let_def case_prod_beta sent_since_def)
    have "fst (await_reply (SelectActivePenaltyOn (u_id u) ?day) w) = Some c"
      using used used_reply [of d c 0 w] by (simp add: out(2) used_replies_def)
    then show ?thesis
      using first Some out(1) by simp
  next
    case None
    show ?thesis
    proof (cases "fst (fst ?sel)")
      case (Some p)
      then have out:
        "sent_since w (snd (snd (addPenalty_try u (m, w)))) = [SelectActivePenaltyOn (u_id u) ?day]"
        using None by (simp add: addPenalty_try_def Let_def case_prod_beta sent_since_def)
      have "fst (await_reply (SelectActivePenaltyOn (u_id u) ?day) w) = Some c"
        using used used_reply [of d c 0 w] by (simp add: out used_replies_def)
      then show ?thesis
        using first None by simp
    next
      case nofound: None
      show ?thesis
      proof (cases "fst ?ins")
        case (Some c2)
        then have out: "fst (addPenalty_try u (m, w)) = Inl (PostgrestError c2)"
            "sent_since w (snd (snd (addPenalty_try u (m, w))))
               = [SelectActivePenaltyOn (u_id u) ?day, InsertPenalty (u_id u) ?day]"
          using None nofound
          by (simp_all add: addPenalty_try_def Let_def case_prod_beta sent_since_def)
        have "(d, Some c) \<in> set (take 1 (replies ?w1))"
          using used used_reply [of d c 1 w "SelectActivePenaltyOn (u_id u) ?day"] first None
          by (auto simp: out(2) used_replies_def)
        then have "fst (await_reply (InsertPenalty (u_id u) ?day) ?w1) = Some c"
          using used_reply [of d c 0 ?w1] by simp
        then show ?thesis
          using insert_penalty_failure [of "u_id u" ?day ?w1 c] Some out(1) by simp
      next
        case inserted: None
        have sent: "length (sent_since w (snd (snd (addPenalty_try u (m, w))))) = 3"
          using None nofound inserted
          by (simp add: addPenalty_try_def Let_def case_prod_beta sent_since_def
              split: option.splits)
        have "(d, Some c) \<in> set (take 2 (replies ?w1))"
          using used used_reply [of d c 2 w "SelectActivePenaltyOn (u_id u) ?day"] first None
          by (auto simp: sent eval_nat_numeral used_replies_def)
        then have "(d, Some c) \<in> set (take 1 (replies ?w2))"
          using used_reply [of d c 1 ?w1 "InsertPenalty (u_id u) ?day"]
            insert_penalty_failure [of "u_id u" ?day ?w1 c] inserted
          by (auto simp: eval_nat_numeral)
        then have "fst (await_reply (UpdateUser (u_id u) ?upd) ?w2) = Some c"
          using used_reply [of d c 0 ?w2] by simp
        then have "fst ?up = Some c"
          by (rule update_users_failure)
        then show ?thesis
          using None nofound inserted
          by (simp add: addPenalty_try_def Let_def case_prod_beta)
      qed
    qed
  qed
qed

lemma addPenalty_requests_of_try:
  "isInPenaltyPeriod (snd s) \<Longrightarrow> isMountedRef (fst s) \<Longrightarrow>
   requests (snd (snd (addPenalty (Some u) s))) = requests (snd (snd (addPenalty_try u s)))"
  by (auto simp: addPenalty_def case_prod_beta split: sum.splits prod.splits)

lemma pingServer_skipped:
  "currentUser = None \<or> \<not> isMountedRef m \<or> clock w - lastPingRef m < 15000 \<Longrightarrow>
   pingServer currentUser (m, w) = (Inr (), m, w)"
  by (auto simp: pingServer_def Let_def split: option.splits)

lemma pingServer_unreachable:
  assumes "netinfo w = NetInfoState isConnected isInternetReachable"
      and "\<not> (isConnected = Some True \<and> isInternetReachable = Some True)"
      and "isMountedRef m" and "\<not> clock w - lastPingRef m < 15000"
  shows "snd (snd (pingServer (Some u) (m, w)))
           = snd (update_users (u_id u)
                    (no_update\<lparr>set_is_online := Some False,
                               set_last_seen := Some (clock w + net_delay w)\<rparr>)
                    (snd (NetInfo_fetch w)))"
  by (simp add: assms pingServer_def pingServer_try_def Let_def case_prod_beta)

text \<open>
  C6. On a tick of \<^verbatim>\<open>pingServer\<close> on which \<^verbatim>\<open>NetInfo\<close> reports the device not connected or
  the internet not reachable, no activity record and no penalty record is written, inside
  the penalty window or outside it. When the tick gets as far as the network check (a
  participant is resolved, the hook is mounted, the last ping is at least 15 seconds old),
  the one request it sends is the update of the participant to \<^verbatim>\<open>is_online = false\<close> and
  \<^verbatim>\<open>last_seen\<close> = the time after the check, which the store applies when it accepts it;
  otherwise the tick changes nothing at all.
\<close>

theorem C6_unreachable_tick:
  assumes "netinfo w = NetInfoState isConnected isInternetReachable"
      and "\<not> (isConnected = Some True \<and> isInternetReachable = Some True)"
  shows "user_activity (snd (snd (pingServer currentUser (m, w)))) = user_activity w
       \<and> penalties (snd (snd (pingServer currentUser (m, w)))) = penalties w
       \<and> (currentUser = Some u \<and> isMountedRef m \<and> \<not> clock w - lastPingRef m < 15000 \<longrightarrow>
            sent_since w (snd (snd (pingServer currentUser (m, w))))
              = [UpdateUser (u_id u)
                   (no_update\<lparr>set_is_online := Some False,
                              set_last_seen := Some (clock w + net_delay w)\<rparr>)]
          \<and> (no_failures w \<longrightarrow>
                users (snd (snd (pingServer currentUser (m, w))))
                  = update_rows (u_id u)
                      (no_update\<lparr>set_is_online := Some False,
                                 set_last_seen := Some (clock w + net_delay w)\<rparr>)
                      (clock (snd (snd (pingServer currentUser (m, w))))) (users w)))
       \<and> (\<not> (\<exists>v. currentUser = Some v \<and> isMountedRef m \<and> \<not> clock w - lastPingRef m < 15000) \<longrightarrow>
            pingServer currentUser (m, w) = (Inr (), m, w))"
proof (cases "\<exists>v. currentUser = Some v \<and> isMountedRef m \<and> \<not> clock w - lastPingRef m < 15000")
  case False
  then have "pingServer currentUser (m, w) = (Inr (), m, w)"
    by (intro pingServer_skipped) (cases currentUser, auto)
  with False show ?thesis by auto
next
  case True
  then obtain v where v: "currentUser = Some v" "isMountedRef m" "\<not> clock w - lastPingRef m < 15000"
    by blast
  let ?upd = "no_update\<lparr>set_is_online := Some False, set_last_seen := Some (clock w + net_delay w)\<rparr>"
  let ?w0 = "snd (NetInfo_fetch w)"
  have w': "snd (snd (pingServer currentUser (m, w))) = snd (update_users (u_id v) ?upd ?w0)"
    using pingServer_unreachable [OF assms v(2,3)] v(1) by simp
  have nf: "no_failures w \<Longrightarrow> no_failures ?w0"
    by (simp add: no_failures_def)
  show ?thesis
    using True v w' nf update_users_done [of "u_id v" ?upd ?w0] update_users_ok [of ?w0 "u_id v" ?upd]
    by (auto simp: sent_since_def)
qed

lemma pingServer_try_connected:
  assumes "netinfo w = NetInfoState (Some True) (Some True)"
  shows "pingServer_try u (m, w) =
           (if snd (fst (select_user_id (u_id u) (snd (NetInfo_fetch w)))) = None
               \<and> isInPenaltyPeriod (after_status u w)
            then addPenalty (Some u) (m, after_status u w)
            else (Inr (), m, after_status u w))"
proof (cases "snd (fst (select_user_id (u_id u) (snd (NetInfo_fetch w)))) = None")
  case True
  then show ?thesis
    by (cases "clock (snd (select_user_id (u_id u) (snd (NetInfo_fetch w)))) - clock w > 1000")
       (simp_all add: assms pingServer_try_def after_status_def Let_def case_prod_beta)
next
  case False
  then obtain c where "snd (fst (select_user_id (u_id u) (snd (NetInfo_fetch w)))) = Some c"
    by auto
  then show ?thesis
    by (simp add: assms pingServer_try_def after_status_def Let_def case_prod_beta)
qed

lemma pingServer_connected:
  assumes "netinfo w = NetInfoState (Some True) (Some True)"
      and "isMountedRef m" and "\<not> clock w - lastPingRef m < 15000"
  shows "snd (snd (pingServer (Some u) (m, w))) =
           (if snd (fst (select_user_id (u_id u) (snd (NetInfo_fetch w)))) = None
               \<and> isInPenaltyPeriod (after_status u w)
            then snd (snd (addPenalty (Some u) (m\<lparr>lastPingRef := clock w\<rparr>, after_status u w)))
            else after_status u w)"
proof -
  let ?m = "m\<lparr>lastPingRef := clock w\<rparr>"
  have "fst (pingServer_try u (?m, w)) = Inr ()"
    by (simp add: pingServer_try_connected [OF assms(1)])
  then obtain s' where "pingServer_try u (?m, w) = (Inr (), s')"
    by (cases "pingServer_try u (?m, w)") auto
  then have "snd (snd (pingServer (Some u) (m, w))) = snd (snd (pingServer_try u (?m, w)))"
    using assms(2,3) by (simp add: pingServer_def Let_def)
  then show ?thesis
    by (simp add: pingServer_try_connected [OF assms(1)])
qed

lemma after_status_requests:
  "requests (after_status u w) = requests w @
     SelectUserId (u_id u) #
     (if snd (fst (select_user_id (u_id u) (snd (NetInfo_fetch w)))) \<noteq> None
         \<or> clock (snd (select_user_id (u_id u) (snd (NetInfo_fetch w)))) - clock w > 1000
      then [InsertActivity (u_id u)
              (clock (snd (select_user_id (u_id u) (snd (NetInfo_fetch w)))))
              (clock (snd (select_user_id (u_id u) (snd (NetInfo_fetch w)))) - clock w)
              (snd (fst (select_user_id (u_id u) (snd (NetInfo_fetch w)))) = None)]
      else []) @
     [UpdateUser (u_id u)
        (no_update\<lparr>set_is_online :=
                     Some (snd (fst (select_user_id (u_id u) (snd (NetInfo_fetch w)))) = None),
                   set_last_seen :=
                     Some (clock
                       (if snd (fst (select_user_id (u_id u) (snd (NetInfo_fetch w)))) \<noteq> None
                          \<or> clock (snd (select_user_id (u_id u) (snd (NetInfo_fetch w)))) - clock w
                              > 1000
                        then snd (insert_activity (u_id u)
                               (clock (snd (select_user_id (u_id u) (snd (NetInfo_fetch w)))))
                               (clock (snd (select_user_id (u_id u) (snd (NetInfo_fetch w))))
                                  - clock w)
                               (snd (fst (select_user_id (u_id u) (snd (NetInfo_fetch w)))) = None)
                               (snd (select_user_id (u_id u) (snd (NetInfo_fetch w)))))
                        else snd (select_user_id (u_id u) (snd (NetInfo_fetch w)))))\<rparr>)]"
  by (simp add: after_status_def Let_def)

lemma after_status_activity:
  "user_activity (after_status u w) =
     (if snd (fst (select_user_id (u_id u) (snd (NetInfo_fetch w)))) \<noteq> None
         \<or> clock (snd (select_user_id (u_id u) (snd (NetInfo_fetch w)))) - clock w > 1000
      then user_activity (snd (insert_activity (u_id u)
              (clock (snd (select_user_id (u_id u) (snd (NetInfo_fetch w)))))
              (clock (snd (select_user_id (u_id u) (snd (NetInfo_fetch w)))) - clock w)
              (snd (fst (select_user_id (u_id u) (snd (NetInfo_fetch w)))) = None)
              (snd (select_user_id (u_id u) (snd (NetInfo_fetch w))))))
      else user_activity w)"
  by (simp add: after_status_def Let_def)

text \<open>
  C7. On a tick of \<^verbatim>\<open>pingServer\<close> that finds the device connected, with \<open>error\<close> the error
  of the lookup of the participant and \<open>responseTime\<close> the time from the start of the tick
  to the answer of the lookup: the tick sends an activity insert exactly when
  \<open>error\<close> is set or \<open>responseTime > 1000\<close>, and then exactly one, carrying the time, the
  response time and \<^verbatim>\<open>is_online = !error\<close>. With no error and \<open>responseTime \<le> 1000\<close> the
  activity table is unchanged, and the tick still sends the update to \<^verbatim>\<open>is_online = true\<close>.
  When the insert is sent and the store accepts it, the activity table gains that one record.
\<close>

theorem C7_activity_ping:
  fixes u :: user and m :: monitor and w :: world
  defines "w1 \<equiv> snd (select_user_id (u_id u) (snd (NetInfo_fetch w)))"
  defines "error \<equiv> snd (fst (select_user_id (u_id u) (snd (NetInfo_fetch w))))"
  defines "responseTime \<equiv> clock w1 - clock w"
  defines "w' \<equiv> snd (snd (pingServer (Some u) (m, w)))"
  assumes net: "netinfo w = NetInfoState (Some True) (Some True)"
      and mounted: "isMountedRef m" and due: "\<not> clock w - lastPingRef m < 15000"
  shows "filter is_activity_insert (sent_since w w')
           = (if error \<noteq> None \<or> responseTime > 1000
              then [InsertActivity (u_id u) (clock w1) responseTime (error = None)] else [])
       \<and> (\<not> (error \<noteq> None \<or> responseTime > 1000) \<longrightarrow>
            user_activity w' = user_activity w
          \<and> UpdateUser (u_id u)
               (no_update\<lparr>set_is_online := Some True, set_last_seen := Some (clock w1)\<rparr>)
              \<in> set (sent_since w w'))
       \<and> ((error \<noteq> None \<or> responseTime > 1000)
            \<and> fst (insert_activity (u_id u) (clock w1) responseTime (error = None) w1) = None \<longrightarrow>
            (\<exists>a. user_activity w' = user_activity w @ [a] \<and> a_user_id a = u_id u
                \<and> ping_timestamp a = clock w1 \<and> response_time a = responseTime
                \<and> a_is_online a = (error = None)))"
proof -
  let ?m = "m\<lparr>lastPingRef := clock w\<rparr>"
  let ?w3 = "after_status u w"
  obtain rs where rs: "requests w' = requests ?w3 @ rs" "filter is_activity_insert rs = []"
  proof (cases "error = None \<and> isInPenaltyPeriod ?w3")
    case True
    then have "w' = snd (snd (addPenalty (Some u) (?m, ?w3)))"
      unfolding w'_def error_def by (simp add: pingServer_connected [OF net mounted due])
    then show ?thesis
      using addPenalty_requests [of "Some u" "(?m, ?w3)"] that by auto
  next
    case False
    then have "w' = ?w3"
      unfolding w'_def error_def using pingServer_connected [OF net mounted due, of u] by auto
    then show ?thesis using that [of "[]"] by simp
  qed
  have act: "user_activity w' = user_activity ?w3"
    unfolding w'_def using pingServer_connected [OF net mounted due, of u]
    by (auto split: if_splits)
  have sent: "sent_since w w' = drop (length (requests w)) (requests ?w3) @ rs"
    using rs(1) by (simp add: sent_since_def after_status_requests)
  show ?thesis
    unfolding sent act
    using rs(2)
      insert_activity_done [of "u_id u" "clock w1" responseTime "error = None" w1]
    by (auto simp: after_status_requests after_status_activity w1_def error_def responseTime_def)
qed

theorem C6_unreachable_tick_witness:
  "netinfo offline_world = NetInfoState (Some True) (Some False)
   \<and> isInPenaltyPeriod offline_world
   \<and> user_activity (snd (snd (pingServer (Some example_user) (example_monitor, offline_world)))) = []
   \<and> penalties (snd (snd (pingServer (Some example_user) (example_monitor, offline_world)))) = []
   \<and> sent_since offline_world
        (snd (snd (pingServer (Some example_user) (example_monitor, offline_world))))
       = [UpdateUser 1 (no_update\<lparr>set_is_online := Some False, set_last_seen := Some 19740005\<rparr>)]
   \<and> map is_online (users (snd (snd (pingServer (Some example_user) (example_monitor, offline_world)))))
       = [False]
   \<and> map last_seen (users (snd (snd (pingServer (Some example_user) (example_monitor, offline_world)))))
       = [19740005]"
proof -
  let ?w' = "snd (snd (pingServer (Some example_user) (example_monitor, offline_world)))"
  have net: "netinfo offline_world = NetInfoState (Some True) (Some False)"
    by code_simp
  have unreachable: "\<not> (Some True = Some True \<and> Some False = Some True)"
    by simp
  have proceeds: "isMountedRef example_monitor"
      "\<not> clock offline_world - lastPingRef example_monitor < 15000"
    by code_simp+
  have evaluated: "isInPenaltyPeriod offline_world" "user_activity offline_world = []"
      "penalties offline_world = []" "u_id example_user = 1"
      "clock offline_world + net_delay offline_world = 19740005"
      "map is_online (users ?w') = [False]" "map last_seen (users ?w') = [19740005]"
    by code_simp+
  show ?thesis
    using C6_unreachable_tick [OF net unreachable, of "Some example_user" example_monitor example_user]
      net proceeds evaluated
    by simp
qed

theorem C7_activity_ping_witness:
  "netinfo example_world = NetInfoState (Some True) (Some True)
   \<and> isMountedRef example_monitor
   \<and> \<not> clock example_world - lastPingRef example_monitor < 15000
   \<and> filter is_activity_insert (sent_since example_world
        (snd (snd (pingServer (Some example_user) (example_monitor, example_world))))) = []
   \<and> user_activity (snd (snd (pingServer (Some example_user) (example_monitor, example_world)))) = []
   \<and> UpdateUser 1 (no_update\<lparr>set_is_online := Some True, set_last_seen := Some 81060005\<rparr>)
       \<in> set (sent_since example_world
                (snd (snd (pingServer (Some example_user) (example_monitor, example_world)))))
   \<and> filter is_activity_insert (sent_since slow_world
        (snd (snd (pingServer (Some example_user) (example_monitor, slow_world)))))
       = [InsertActivity 1 81062005 2005 True]
   \<and> map response_time
        (user_activity (snd (snd (pingServer (Some example_user) (example_monitor, slow_world)))))
       = [2005]"
proof -
  have net: "netinfo example_world = NetInfoState (Some True) (Some True)"
      "netinfo slow_world = NetInfoState (Some True) (Some True)"
    by code_simp+
  have proceeds: "isMountedRef example_monitor"
      "\<not> clock example_world - lastPingRef example_monitor < 15000"
      "\<not> clock slow_world - lastPingRef example_monitor < 15000"
    by code_simp+
  have fast: "snd (fst (select_user_id (u_id example_user) (snd (NetInfo_fetch example_world)))) = None"
      "clock (snd (select_user_id (u_id example_user) (snd (NetInfo_fetch example_world)))) = 81060005"
      "clock example_world = 81060000" "u_id example_user = 1"
      "user_activity example_world = []"
    by code_simp+
  have slow: "snd (fst (select_user_id (u_id example_user) (snd (NetInfo_fetch slow_world)))) = None"
      "clock (snd (select_user_id (u_id example_user) (snd (NetInfo_fetch slow_world)))) = 81062005"
      "clock slow_world = 81060000"
      "map response_time
         (user_activity (snd (snd (pingServer (Some example_user) (example_monitor, slow_world)))))
        = [2005]"
    by code_simp+
  show ?thesis
    using C7_activity_ping [OF net(1) proceeds(1,2), of example_user]
      C7_activity_ping [OF net(2) proceeds(1,3), of example_user]
      net proceeds fast slow
    by simp
qed

text \<open>What a tick prints.\<close>

lemma addPenalty_console:
  "console (snd (snd (addPenalty currentUser s))) = console (snd s)
   \<or> (\<exists>x. console (snd (snd (addPenalty currentUser s)))
            = console (snd s) @ [(''Error adding penalty:'', x)])"
  using addPenalty_world [of currentUser s] by auto

lemma after_status_console [simp]: "console (after_status u w) = console w"
  by (simp add: after_status_def Let_def)

lemma pingServer_console:
  assumes net: "netinfo w = NetInfoState a b"
  shows "console (snd (snd (pingServer currentUser (m, w)))) = console w
       \<or> (\<exists>x. console (snd (snd (pingServer currentUser (m, w))))
                = console w @ [(''Error adding penalty:'', x)])"
proof (cases "\<exists>v. currentUser = Some v \<and> isMountedRef m \<and> \<not> clock w - lastPingRef m < 15000")
  case False
  then have "pingServer currentUser (m, w) = (Inr (), m, w)"
    by (intro pingServer_skipped) (cases currentUser, auto)
  then show ?thesis by simp
next
  case True
  then obtain v where v: "currentUser = Some v" "isMountedRef m" "\<not> clock w - lastPingRef m < 15000"
    by blast
  show ?thesis
  proof (cases "a = Some True \<and> b = Some True")
    case True
    then have net': "netinfo w = NetInfoState (Some True) (Some True)"
      using net by simp
    show ?thesis
      using pingServer_connected [OF net' v(2,3), of v] v(1)
        addPenalty_console [of "Some v" "(m\<lparr>lastPingRef := clock w\<rparr>, after_status v w)"]
      by (auto split: if_splits)
  next
    case False
    then show ?thesis
      using pingServer_unreachable [OF net False v(2,3), of v] v(1) by simp
  qed
qed

lemma pingServer_silent:
  assumes net: "netinfo w = NetInfoState a b"
      and failed: "\<not> (a = Some True \<and> b = Some True)
                   \<or> snd (fst (select_user_id (u_id u) (snd (NetInfo_fetch w)))) \<noteq> None"
  shows "console (snd (snd (pingServer (Some u) (m, w)))) = console w"
proof (cases "isMountedRef m \<and> \<not> clock w - lastPingRef m < 15000")
  case False
  then have "pingServer (Some u) (m, w) = (Inr (), m, w)"
    by (intro pingServer_skipped) auto
  then show ?thesis by simp
next
  case True
  show ?thesis
  proof (cases "a = Some True \<and> b = Some True")
    case connected: True
    then have net': "netinfo w = NetInfoState (Some True) (Some True)"
      using net by simp
    have "snd (fst (select_user_id (u_id u) (snd (NetInfo_fetch w)))) \<noteq> None"
      using failed connected by blast
    then show ?thesis
      using pingServer_connected [OF net', of m u] True by auto
  next
    case False
    then show ?thesis
      using pingServer_unreachable [OF net False, of m u] True by simp
  qed
qed

text \<open>
  C8 (as amended). Neither \<^verbatim>\<open>addPenalty\<close> nor \<^verbatim>\<open>pingServer\<close> ever rejects, whatever the
  state, the replies of the store and the answer of \<^verbatim>\<open>NetInfo\<close>: every call resolves.
  Whatever the \<^verbatim>\<open>try\<close> block of either function throws is caught by that function and
  printed with \<^verbatim>\<open>console.error\<close>, one entry per call; in \<^verbatim>\<open>pingServer\<close> that is a
  rejection of \<^verbatim>\<open>NetInfo.fetch\<close>. In \<^verbatim>\<open>addPenalty\<close>, past its guard, every failure the store
  answers one of its requests with is thrown, and so printed, unless its code is
  \<^verbatim>\<open>PGRST116\<close>. The failures the store answers the requests of \<^verbatim>\<open>pingServer\<close> itself with
  (the lookup, the activity insert, the status update) are neither thrown nor printed:
  when \<^verbatim>\<open>NetInfo.fetch\<close> resolves, a tick prints nothing but what the \<^verbatim>\<open>addPenalty\<close> it
  calls prints, and it prints nothing at all when the device is not reachable or the
  lookup reports an error.
\<close>

theorem C8_no_exception_escapes:
  "fst (addPenalty currentUser s) = Inr ()
   \<and> fst (pingServer currentUser s) = Inr ()
   \<and> (isInPenaltyPeriod (snd s) \<and> isMountedRef (fst s) \<and> fst (addPenalty_try u s) = Inl e \<longrightarrow>
        console (snd (snd (addPenalty (Some u) s)))
          = console (snd s) @ [(''Error adding penalty:'', e)])
   \<and> (isInPenaltyPeriod (snd s) \<and> isMountedRef (fst s)
        \<and> (d, Some c) \<in> set (used_replies (snd s) (snd (snd (addPenalty (Some u) s))))
        \<and> c \<noteq> ''PGRST116'' \<longrightarrow>
        console (snd (snd (addPenalty (Some u) s)))
          = console (snd s) @ [(''Error adding penalty:'', PostgrestError c)])
   \<and> (isMountedRef (fst s) \<and> \<not> clock (snd s) - lastPingRef (fst s) < 15000
        \<and> fst (pingServer_try u ((fst s)\<lparr>lastPingRef := clock (snd s)\<rparr>, snd s)) = Inl e \<longrightarrow>
        e = NetInfoFailure
      \<and> console (snd (snd (pingServer (Some u) s))) = console (snd s) @ [(''Ping error:'', e)])
   \<and> (netinfo (snd s) = NetInfoState a b \<longrightarrow>
        console (snd (snd (pingServer currentUser s))) = console (snd s)
      \<or> (\<exists>x. console (snd (snd (pingServer currentUser s)))
               = console (snd s) @ [(''Error adding penalty:'', x)]))
   \<and> (netinfo (snd s) = NetInfoState a b
        \<and> (\<not> (a = Some True \<and> b = Some True)
           \<or> snd (fst (select_user_id (u_id u) (snd (NetInfo_fetch (snd s))))) \<noteq> None) \<longrightarrow>
        console (snd (snd (pingServer (Some u) s))) = console (snd s))"
proof -
  have logged: "console (snd (snd (addPenalty (Some u) s)))
                  = console (snd s) @ [(''Error adding penalty:'', x)]"
    if "isInPenaltyPeriod (snd s)" and "isMountedRef (fst s)" and "fst (addPenalty_try u s) = Inl x"
    for x
  proof -
    obtain r m' w' where t: "addPenalty_try u s = (r, m', w')"
      by (cases "addPenalty_try u s") auto
    have "console w' = console (snd s)"
      using addPenalty_try_fields(2) [of u s] t by simp
    then show ?thesis
      using that t by (simp add: addPenalty_def case_prod_beta)
  qed
  show ?thesis
  proof (intro conjI impI)
    show "fst (addPenalty currentUser s) = Inr ()"
      by simp
    show "fst (pingServer currentUser s) = Inr ()"
      by (auto simp: pingServer_def case_prod_beta Let_def split: option.splits sum.splits)
  next
    assume "isInPenaltyPeriod (snd s) \<and> isMountedRef (fst s) \<and> fst (addPenalty_try u s) = Inl e"
    then show "console (snd (snd (addPenalty (Some u) s)))
                 = console (snd s) @ [(''Error adding penalty:'', e)]"
      using logged [of e] by simp
  next
    assume a: "isInPenaltyPeriod (snd s) \<and> isMountedRef (fst s)
        \<and> (d, Some c) \<in> set (used_replies (snd s) (snd (snd (addPenalty (Some u) s))))
        \<and> c \<noteq> ''PGRST116''"
    then have "(d, Some c) \<in> set (used_replies (snd s) (snd (snd (addPenalty_try u s))))"
      using addPenalty_requests_of_try [of s u] by (simp add: used_replies_def sent_since_def)
    then have "fst (addPenalty_try u s) = Inl (PostgrestError c)"
      using addPenalty_try_throws_failure [of d c "snd s" u "fst s"] a by simp
    then show "console (snd (snd (addPenalty (Some u) s)))
                 = console (snd s) @ [(''Error adding penalty:'', PostgrestError c)]"
      using logged [of "PostgrestError c"] a by simp
  next
    let ?s1 = "((fst s)\<lparr>lastPingRef := clock (snd s)\<rparr>, snd s)"
    assume a: "isMountedRef (fst s) \<and> \<not> clock (snd s) - lastPingRef (fst s) < 15000
          \<and> fst (pingServer_try u ?s1) = Inl e"
    obtain r m' w' where t: "pingServer_try u ?s1 = (r, m', w')"
      by (cases "pingServer_try u ?s1") auto
    show "e = NetInfoFailure"
      using pingServer_try_rejects [of u ?s1 e] a by simp
    have "console w' = console (snd s)"
      using pingServer_try_rejects [of u ?s1 e] a t by simp
    then show "console (snd (snd (pingServer (Some u) s)))
                 = console (snd s) @ [(''Ping error:'', e)]"
      using a t by (simp add: pingServer_def case_prod_beta Let_def)
  next
    assume "netinfo (snd s) = NetInfoState a b"
    then show "console (snd (snd (pingServer currentUser s))) = console (snd s)
      \<or> (\<exists>x. console (snd (snd (pingServer currentUser s)))
               = console (snd s) @ [(''Error adding penalty:'', x)])"
      using pingServer_console [of "snd s" a b currentUser "fst s"] by simp
  next
    assume "netinfo (snd s) = NetInfoState a b
        \<and> (\<not> (a = Some True \<and> b = Some True)
           \<or> snd (fst (select_user_id (u_id u) (snd (NetInfo_fetch (snd s))))) \<noteq> None)"
    then show "console (snd (snd (pingServer (Some u) s))) = console (snd s)"
      using pingServer_silent [of "snd s" a b u "fst s"] by simp
  qed
qed

text \<open>
  As stated for every failure of the store inside a tick, the claim fails: a tick whose
  lookup, activity insert and status update all fail resolves with nothing printed, no
  alert shown and no activity record written.
\<close>

theorem C8_no_exception_escapes_counterexample:
  "netinfo refusing_world = NetInfoState (Some True) (Some True)
   \<and> used_replies refusing_world
        (snd (snd (pingServer (Some example_user) (example_monitor, refusing_world))))
       = [(1, Some ''08006''), (1, Some ''08006''), (1, Some ''08006'')]
   \<and> fst (pingServer (Some example_user) (example_monitor, refusing_world)) = Inr ()
   \<and> console (snd (snd (pingServer (Some example_user) (example_monitor, refusing_world)))) = []
   \<and> alerts (snd (snd (pingServer (Some example_user) (example_monitor, refusing_world)))) = []
   \<and> user_activity (snd (snd (pingServer (Some example_user) (example_monitor, refusing_world))))
       = []"
  by code_simp

theorem C8_no_exception_escapes_witness:
  "isInPenaltyPeriod failing_world \<and> isMountedRef example_monitor
   \<and> fst (addPenalty_try example_user (example_monitor, failing_world))
       = Inl (PostgrestError ''08006'')
   \<and> (1, Some ''08006'') \<in> set (used_replies failing_world
         (snd (snd (addPenalty (Some example_user) (example_monitor, failing_world)))))
   \<and> fst (addPenalty (Some example_user) (example_monitor, failing_world)) = Inr ()
   \<and> console (snd (snd (addPenalty (Some example_user) (example_monitor, failing_world))))
       = [(''Error adding penalty:'', PostgrestError ''08006'')]
   \<and> fst (pingServer_try example_user
            (example_monitor\<lparr>lastPingRef := 81060000\<rparr>, example_world\<lparr>netinfo := NetInfoRejected\<rparr>))
       = Inl NetInfoFailure
   \<and> fst (pingServer (Some example_user)
            (example_monitor, example_world\<lparr>netinfo := NetInfoRejected\<rparr>)) = Inr ()
   \<and> console (snd (snd (pingServer (Some example_user)
            (example_monitor, example_world\<lparr>netinfo := NetInfoRejected\<rparr>))))
       = [(''Ping error:'', NetInfoFailure)]
   \<and> netinfo refusing_world = NetInfoState (Some True) (Some True)
   \<and> snd (fst (select_user_id (u_id example_user) (snd (NetInfo_fetch refusing_world))))
       = Some ''08006''
   \<and> console (snd (snd (pingServer (Some example_user) (example_monitor, refusing_world)))) = []"
proof -
  let ?s = "(example_monitor, failing_world)"
  let ?p = "(example_monitor, example_world\<lparr>netinfo := NetInfoRejected\<rparr>)"
  let ?q = "(example_monitor, refusing_world)"
  have a: "isInPenaltyPeriod (snd ?s) \<and> isMountedRef (fst ?s)
           \<and> fst (addPenalty_try example_user ?s) = Inl (PostgrestError ''08006'')"
    by code_simp
  have a': "isInPenaltyPeriod (snd ?s) \<and> isMountedRef (fst ?s)
           \<and> (1, Some ''08006'') \<in> set (used_replies (snd ?s)
                 (snd (snd (addPenalty (Some example_user) ?s))))
           \<and> ''08006'' \<noteq> ''PGRST116''"
    by code_simp
  have b: "isMountedRef (fst ?p) \<and> \<not> clock (snd ?p) - lastPingRef (fst ?p) < 15000
           \<and> fst (pingServer_try example_user ((fst ?p)\<lparr>lastPingRef := clock (snd ?p)\<rparr>, snd ?p))
               = Inl NetInfoFailure"
    by code_simp
  have c: "console (snd ?s) = []" "console (snd ?p) = []" "clock (snd ?p) = 81060000"
      "console (snd ?q) = []"
    by code_simp+
  have q: "netinfo (snd ?q) = NetInfoState (Some True) (Some True)"
      "snd (fst (select_user_id (u_id example_user) (snd (NetInfo_fetch (snd ?q))))) = Some ''08006''"
    by code_simp+
  have silent: "console (snd (snd (pingServer (Some example_user) ?q))) = console (snd ?q)"
    using C8_no_exception_escapes [of "Some example_user" ?q example_user NetInfoFailure
        1 "''08006''" "Some True" "Some True"] q
    by simp
  show ?thesis
    using a a' b c q silent
      C8_no_exception_escapes [of "Some example_user" ?s example_user "PostgrestError ''08006''"
        1 "''08006''"]
      C8_no_exception_escapes [of "Some example_user" ?p example_user NetInfoFailure]
    by simp
qed

subsection \<open>At most one penalty a day\<close>

lemma no_failures_clock [simp]: "no_failures (w\<lparr>clock := t\<rparr>) = no_failures w"
  by (simp add: no_failures_def)

lemma user_exists_clock [simp]: "user_exists uid (w\<lparr>clock := t\<rparr>) = user_exists uid w"
  by (simp add: user_exists_def)

lemma no_failures_replies: "no_failures w \<Longrightarrow> set (replies w') \<subseteq> set (replies w) \<Longrightarrow> no_failures w'"
  by (auto simp: no_failures_def)

lemma in_set_tl: "x \<in> set (tl xs) \<Longrightarrow> x \<in> set xs"
  by (cases xs) auto

lemma addPenalty_try_replies:
  "r \<in> set (replies (snd (snd (addPenalty_try u s)))) \<Longrightarrow> r \<in> set (replies (snd s))"
  by (auto simp: addPenalty_try_def Let_def case_prod_beta dest!: in_set_tl
      split: option.splits)

lemma addPenalty_no_failures:
  "no_failures (snd s) \<Longrightarrow> no_failures (snd (snd (addPenalty currentUser s)))"
  using addPenalty_world [of currentUser s]
  by (auto simp: no_failures_def dest!: addPenalty_try_replies)

lemma addPenalty_mounted [simp]:
  "isMountedRef (fst (snd (addPenalty currentUser s))) = isMountedRef (fst s)"
  by (auto simp: addPenalty_def addPenalty_try_def Let_def case_prod_beta
      split: option.splits sum.splits prod.splits)

text \<open>The first call inside the window: one record more, and the counter written.\<close>

lemma addPenalty_first:
  assumes "isInPenaltyPeriod w" and "isMountedRef m" and "no_failures w"
      and "user_exists (u_id cu) w"
      and "filter (active_on (u_id cu) (toISODate (clock w))) (penalties w) = []"
  shows "\<exists>p. penalties (snd (snd (addPenalty (Some cu) (m, w)))) = penalties w @ [p]
            \<and> active_on (u_id cu) (toISODate (clock w)) p"
    and "\<exists>t. users (snd (snd (addPenalty (Some cu) (m, w))))
            = update_rows (u_id cu)
                (no_update\<lparr>set_penalty_count := Some (penalty_count cu + 1)\<rparr>) t (users w)"
proof -
  let ?d = "toISODate (clock w)"
  let ?w1 = "snd (select_active_penalty_on (u_id cu) ?d w)"
  let ?w2 = "snd (insert_penalty (u_id cu) ?d ?w1)"
  let ?upd = "no_update\<lparr>set_penalty_count := Some (penalty_count cu + 1)\<rparr>"
  let ?w3 = "snd (update_users (u_id cu) ?upd ?w2)"
  have sel: "fst (select_active_penalty_on (u_id cu) ?d w) = (None, Some ''PGRST116'')"
    using assms(3,5) by (simp add: select_active_penalty_on_ok single_def)
  have nf1: "no_failures ?w1"
    by (rule no_failures_tl [OF assms(3)]) simp
  have ins: "fst (insert_penalty (u_id cu) ?d ?w1) = None"
    using nf1 assms(4) by (simp add: insert_penalty_ok)
  have nf2: "no_failures ?w2"
    by (rule no_failures_tl [OF nf1]) simp
  have upd: "fst (update_users (u_id cu) ?upd ?w2) = None"
    using nf2 by (rule update_users_ok)
  have out: "snd (snd (addPenalty (Some cu) (m, w))) = ?w3"
    using assms(1,2) sel ins upd
    by (simp add: addPenalty_def addPenalty_try_def Let_def case_prod_beta fatal_def)
  show "\<exists>p. penalties (snd (snd (addPenalty (Some cu) (m, w)))) = penalties w @ [p]
            \<and> active_on (u_id cu) ?d p"
    using insert_penalty_done [OF ins] by (simp add: out)
  show "\<exists>t. users (snd (snd (addPenalty (Some cu) (m, w))))
            = update_rows (u_id cu) ?upd t (users w)"
    using update_users_done [OF upd] by (auto simp: out)
qed

text \<open>A call that finds the one active record of the day changes no table.\<close>

lemma addPenalty_again:
  assumes "no_failures w"
      and "length (filter (active_on (u_id cu) (toISODate (clock w))) (penalties w)) = 1"
  shows "penalties (snd (snd (addPenalty (Some cu) (m, w)))) = penalties w"
    and "users (snd (snd (addPenalty (Some cu) (m, w)))) = users w"
    and "sent_since w (snd (snd (addPenalty (Some cu) (m, w)))) = []
         \<or> sent_since w (snd (snd (addPenalty (Some cu) (m, w))))
             = [SelectActivePenaltyOn (u_id cu) (toISODate (clock w))]"
proof -
  let ?d = "toISODate (clock w)"
  obtain p where p: "filter (active_on (u_id cu) ?d) (penalties w) = [p]"
    using assms(2) by (cases "filter (active_on (u_id cu) ?d) (penalties w)") auto
  have sel: "fst (select_active_penalty_on (u_id cu) ?d w) = (Some p, None)"
    using assms(1) p by (simp add: select_active_penalty_on_ok single_def)
  have out: "snd (snd (addPenalty (Some cu) (m, w))) = w
           \<or> snd (snd (addPenalty (Some cu) (m, w))) = snd (select_active_penalty_on (u_id cu) ?d w)"
    using sel by (simp add: addPenalty_def addPenalty_try_def Let_def case_prod_beta fatal_def)
  show "penalties (snd (snd (addPenalty (Some cu) (m, w)))) = penalties w"
    using out by auto
  show "users (snd (snd (addPenalty (Some cu) (m, w)))) = users w"
    using out by auto
  show "sent_since w (snd (snd (addPenalty (Some cu) (m, w)))) = []
         \<or> sent_since w (snd (snd (addPenalty (Some cu) (m, w))))
             = [SelectActivePenaltyOn (u_id cu) ?d]"
    using out by (auto simp: sent_since_def)
qed

lemma addPenalty_times_again:
  assumes "no_failures (snd s)"
      and "length (filter (active_on (u_id cu) today) (penalties (snd s))) = 1"
      and "\<forall>t \<in> set ts. toISODate t = today"
  shows "penalties (snd (addPenalty_times (Some cu) ts s)) = penalties (snd s)
       \<and> users (snd (addPenalty_times (Some cu) ts s)) = users (snd s)"
  using assms
proof (induction ts arbitrary: s)
  case Nil
  then show ?case by simp
next
  case (Cons t ts)
  let ?w = "(snd s)\<lparr>clock := t\<rparr>"
  let ?s1 = "snd (addPenalty (Some cu) (fst s, ?w))"
  have day: "toISODate (clock ?w) = today"
    using Cons.prems(3) by simp
  have one: "length (filter (active_on (u_id cu) (toISODate (clock ?w))) (penalties ?w)) = 1"
    using Cons.prems(2) day by simp
  have nf: "no_failures ?w"
    using Cons.prems(1) by simp
  have same: "penalties (snd ?s1) = penalties (snd s)" "users (snd ?s1) = users (snd s)"
    using addPenalty_again(1,2) [OF nf one, of "fst s"] by simp_all
  have nf1: "no_failures (snd ?s1)"
    using addPenalty_no_failures [of "(fst s, ?w)" "Some cu"] nf by simp
  have "penalties (snd (addPenalty_times (Some cu) ts ?s1)) = penalties (snd ?s1)
      \<and> users (snd (addPenalty_times (Some cu) ts ?s1)) = users (snd ?s1)"
    using Cons.IH [of ?s1] nf1 same Cons.prems(2,3) by simp
  then show ?case
    using same by simp
qed

lemma update_rows_counts:
  assumes "\<forall>u \<in> set us. u_id u = uid \<longrightarrow> penalty_count u = c"
  shows "map penalty_count (update_rows uid (no_update\<lparr>set_penalty_count := Some (c + 1)\<rparr>) t us)
           = map (\<lambda>u. if u_id u = uid then penalty_count u + 1 else penalty_count u) us"
    and "map u_id (update_rows uid (no_update\<lparr>set_penalty_count := Some (c + 1)\<rparr>) t us)
           = map u_id us"
  using assms by (auto simp: update_rows_def apply_update_def no_update_def)

text \<open>
  C1 (as amended). Let the participant of the snapshot \<^verbatim>\<open>currentUser\<close> be in the store with
  the count the snapshot has and with no active penalty record for today. When
  \<^verbatim>\<open>addPenalty\<close> is called any number of times, at least once, one call after the other,
  each at a time of today inside the penalty window, with the hook mounted and every store
  request succeeding, then afterwards the store holds exactly one active record for the
  participant and today, and the participant's stored count is one more than before; no
  other row's count has changed. And a call made when the store holds exactly one active
  record for the participant and the day of the call changes no table and sends no write.
\<close>

theorem C1_penalty_once:
  "(ts \<noteq> []
      \<and> (\<forall>t \<in> set ts. isInPenaltyPeriod (w\<lparr>clock := t\<rparr>) \<and> toISODate t = today)
      \<and> isMountedRef m \<and> no_failures w \<and> user_exists (u_id cu) w
      \<and> (\<forall>u \<in> set (users w). u_id u = u_id cu \<longrightarrow> penalty_count u = penalty_count cu)
      \<and> filter (active_on (u_id cu) today) (penalties w) = []
    \<longrightarrow> length (filter (active_on (u_id cu) today)
                  (penalties (snd (addPenalty_times (Some cu) ts (m, w))))) = 1
      \<and> map penalty_count (users (snd (addPenalty_times (Some cu) ts (m, w))))
          = map (\<lambda>u. if u_id u = u_id cu then penalty_count u + 1 else penalty_count u) (users w)
      \<and> map u_id (users (snd (addPenalty_times (Some cu) ts (m, w)))) = map u_id (users w))
   \<and> (no_failures v
      \<and> length (filter (active_on (u_id cu) (toISODate (clock v))) (penalties v)) = 1
    \<longrightarrow> penalties (snd (snd (addPenalty (Some cu) (n, v)))) = penalties v
      \<and> users (snd (snd (addPenalty (Some cu) (n, v)))) = users v
      \<and> user_activity (snd (snd (addPenalty (Some cu) (n, v)))) = user_activity v
      \<and> filter (\<lambda>rq. \<not> is_read rq) (sent_since v (snd (snd (addPenalty (Some cu) (n, v))))) = [])"
proof (intro conjI impI)
  assume h: "ts \<noteq> []
      \<and> (\<forall>t \<in> set ts. isInPenaltyPeriod (w\<lparr>clock := t\<rparr>) \<and> toISODate t = today)
      \<and> isMountedRef m \<and> no_failures w \<and> user_exists (u_id cu) w
      \<and> (\<forall>u \<in> set (users w). u_id u = u_id cu \<longrightarrow> penalty_count u = penalty_count cu)
      \<and> filter (active_on (u_id cu) today) (penalties w) = []"
  then obtain t ts' where ts: "ts = t # ts'"
    by (cases ts) auto
  let ?w0 = "w\<lparr>clock := t\<rparr>"
  let ?s1 = "snd (addPenalty (Some cu) (m, ?w0))"
  have day: "toISODate (clock ?w0) = today" and later: "\<forall>t \<in> set ts'. toISODate t = today"
    using h ts by simp_all
  have window: "isInPenaltyPeriod ?w0"
    using h ts by simp
  have none: "filter (active_on (u_id cu) (toISODate (clock ?w0))) (penalties ?w0) = []"
    using h day by simp
  have nf: "no_failures ?w0" and ex: "user_exists (u_id cu) ?w0" and mounted: "isMountedRef m"
    using h by simp_all
  obtain p where p: "penalties (snd ?s1) = penalties w @ [p]" "active_on (u_id cu) today p"
    using addPenalty_first(1) [OF window mounted nf ex none] day by auto
  obtain t1 where t1: "users (snd ?s1)
      = update_rows (u_id cu) (no_update\<lparr>set_penalty_count := Some (penalty_count cu + 1)\<rparr>)
          t1 (users w)"
    using addPenalty_first(2) [OF window mounted nf ex none] by auto
  have one: "length (filter (active_on (u_id cu) today) (penalties (snd ?s1))) = 1"
    using p h by simp
  have nf1: "no_failures (snd ?s1)"
    using addPenalty_no_failures [of "(m, ?w0)" "Some cu"] nf by simp
  have rest: "penalties (snd (addPenalty_times (Some cu) ts (m, w))) = penalties (snd ?s1)"
      "users (snd (addPenalty_times (Some cu) ts (m, w))) = users (snd ?s1)"
    using addPenalty_times_again [OF nf1 one later] ts by simp_all
  show "length (filter (active_on (u_id cu) today)
          (penalties (snd (addPenalty_times (Some cu) ts (m, w))))) = 1"
    using rest(1) one by simp
  show "map penalty_count (users (snd (addPenalty_times (Some cu) ts (m, w))))
          = map (\<lambda>u. if u_id u = u_id cu then penalty_count u + 1 else penalty_count u) (users w)"
    using rest(2) t1 update_rows_counts(1) [of "users w" "u_id cu" "penalty_count cu" t1] h
    by simp
  show "map u_id (users (snd (addPenalty_times (Some cu) ts (m, w)))) = map u_id (users w)"
    using rest(2) t1 update_rows_counts(2) [of "users w" "u_id cu" "penalty_count cu" t1] h
    by simp
next
  assume h: "no_failures v
      \<and> length (filter (active_on (u_id cu) (toISODate (clock v))) (penalties v)) = 1"
  then have nf: "no_failures v"
    and one: "length (filter (active_on (u_id cu) (toISODate (clock v))) (penalties v)) = 1"
    by simp_all
  show "penalties (snd (snd (addPenalty (Some cu) (n, v)))) = penalties v"
    by (rule addPenalty_again(1) [OF nf one])
  show "users (snd (snd (addPenalty (Some cu) (n, v)))) = users v"
    by (rule addPenalty_again(2) [OF nf one])
  show "user_activity (snd (snd (addPenalty (Some cu) (n, v)))) = user_activity v"
    by simp
  show "filter (\<lambda>rq. \<not> is_read rq) (sent_since v (snd (snd (addPenalty (Some cu) (n, v))))) = []"
    using addPenalty_again(3) [OF nf one, of n] by auto
qed

text \<open>
  As stated, for every participant with no active record for today, the claim fails
  outside the window: at noon three calls in a row leave the participant with no active
  record and with the count unchanged. Inside the window it fails for a snapshot that is
  behind the store: with a stored count of 5 and a snapshot of 2, three calls leave one
  active record and the stored count 3.
\<close>

theorem C1_penalty_once_counterexample:
  "filter (active_on (u_id example_user) 0) (penalties noon_world) = []
   \<and> penalties (snd (addPenalty_times (Some example_user) [43200000, 43320000, 43440000]
                      (example_monitor, noon_world))) = []
   \<and> map penalty_count (users noon_world) = [2]
   \<and> map penalty_count (users (snd (addPenalty_times (Some example_user)
                      [43200000, 43320000, 43440000] (example_monitor, noon_world)))) = [2]
   \<and> filter (active_on (u_id example_user) 0) (penalties stale_world) = []
   \<and> map penalty_count (users stale_world) = [5]
   \<and> length (filter (active_on (u_id example_user) 0)
        (penalties (snd (addPenalty_times (Some example_user) three_calls
                           (example_monitor, stale_world))))) = 1
   \<and> map penalty_count (users (snd (addPenalty_times (Some example_user) three_calls
                           (example_monitor, stale_world)))) = [3]"
  by code_simp

theorem C1_penalty_once_witness:
  "three_calls \<noteq> []
   \<and> list_all (\<lambda>t. isInPenaltyPeriod (example_world\<lparr>clock := t\<rparr>) \<and> toISODate t = 0) three_calls
   \<and> isMountedRef example_monitor \<and> no_failures example_world
   \<and> user_exists (u_id example_user) example_world
   \<and> map penalty_count (users example_world) = [penalty_count example_user]
   \<and> filter (active_on (u_id example_user) 0) (penalties example_world) = []
   \<and> length (filter (active_on (u_id example_user) 0)
        (penalties (snd (addPenalty_times (Some example_user) three_calls
                           (example_monitor, example_world))))) = 1
   \<and> map penalty_count (users (snd (addPenalty_times (Some example_user) three_calls
                           (example_monitor, example_world)))) = [3]
   \<and> penalties (snd (snd (addPenalty (Some example_user)
        (addPenalty_times (Some example_user) three_calls (example_monitor, example_world)))))
       = penalties (snd (addPenalty_times (Some example_user) three_calls
                           (example_monitor, example_world)))"
proof -
  let ?s = "addPenalty_times (Some example_user) three_calls (example_monitor, example_world)"
  have h: "three_calls \<noteq> []
      \<and> (\<forall>t \<in> set three_calls. isInPenaltyPeriod (example_world\<lparr>clock := t\<rparr>) \<and> toISODate t = 0)
      \<and> isMountedRef example_monitor \<and> no_failures example_world
      \<and> user_exists (u_id example_user) example_world
      \<and> (\<forall>u \<in> set (users example_world).
            u_id u = u_id example_user \<longrightarrow> penalty_count u = penalty_count example_user)
      \<and> filter (active_on (u_id example_user) 0) (penalties example_world) = []"
    by code_simp
  have h2: "no_failures (snd ?s)
      \<and> length (filter (active_on (u_id example_user) (toISODate (clock (snd ?s))))
                  (penalties (snd ?s))) = 1"
    by code_simp
  have evaluated: "map penalty_count (users example_world) = [penalty_count example_user]"
      "map (\<lambda>u. if u_id u = u_id example_user then penalty_count u + 1 else penalty_count u)
         (users example_world) = [3]"
      "list_all (\<lambda>t. isInPenaltyPeriod (example_world\<lparr>clock := t\<rparr>) \<and> toISODate t = 0) three_calls"
    by code_simp+
  show ?thesis
    using h h2 evaluated
      C1_penalty_once [of three_calls example_world 0 example_monitor example_user "snd ?s"
         "fst ?s"]
    by simp
qed

subsection \<open>Session initialization\<close>

lemma select_user_by_device_world [simp]:
  "snd (select_user_by_device name w) = snd (await_reply (SelectUserByDevice name) w)"
  by (simp add: select_user_by_device_def case_prod_beta split: option.splits)

lemma select_user_by_device_ok:
  "no_failures w \<Longrightarrow>
   fst (select_user_by_device name w) = single (filter (\<lambda>u. device_name u = name) (users w))"
  by (simp add: select_user_by_device_def case_prod_beta)

lemma insert_user_fields [simp]:
  "penalties (snd (insert_user name b t w)) = penalties w"
  "user_activity (snd (insert_user name b t w)) = user_activity w"
  "tz_offset (snd (insert_user name b t w)) = tz_offset w"
  "console (snd (insert_user name b t w)) = console w"
  "alerts (snd (insert_user name b t w)) = alerts w"
  "requests (snd (insert_user name b t w)) = requests w @ [InsertUser name b t]"
  "replies (snd (insert_user name b t w)) = tl (replies w)"
  "clock (snd (insert_user name b t w)) = clock (snd (await_reply (InsertUser name b t) w))"
  by (simp_all add: insert_user_def case_prod_beta Let_def split: option.splits)

lemma insert_user_ok:
  assumes "no_failures w" and "name \<notin> set (map device_name (users w))"
  shows "fst (insert_user name b t w)
           = (Some \<lparr>u_id = fresh_uuid (map u_id (users w)), device_name = name, penalty_count = 0,
                    last_seen = t, is_online = b,
                    u_created_at = clock (snd (insert_user name b t w)),
                    updated_at = clock (snd (insert_user name b t w))\<rparr>, None)"
    and "users (snd (insert_user name b t w))
           = users w @ [\<lparr>u_id = fresh_uuid (map u_id (users w)), device_name = name,
                         penalty_count = 0, last_seen = t, is_online = b,
                         u_created_at = clock (snd (insert_user name b t w)),
                         updated_at = clock (snd (insert_user name b t w))\<rparr>]"
  using assms by (simp_all add: insert_user_def case_prod_beta Let_def)

lemma filter_device_empty:
  "name \<notin> set (map device_name us) \<Longrightarrow> filter (\<lambda>u. device_name u = name) us = []"
  by (induction us) auto

text \<open>The first call for a label the store does not know.\<close>

lemma initializeUser_new:
  assumes label: "deviceName um \<noteq> []" "deviceName um \<noteq> ''Unknown Device''"
      and miss: "fst (cache_get (clock w) (cacheKey (deviceName um)) (um_cache um)) = None"
      and nf: "no_failures w"
      and new: "deviceName um \<notin> set (map device_name (users w))"
  defines "w1 \<equiv> snd (select_user_by_device (deviceName um) w)"
  defines "w2 \<equiv> snd (insert_user (deviceName um) True (clock w1) w1)"
  defines "u \<equiv> \<lparr>u_id = fresh_uuid (map u_id (users w)), device_name = deviceName um,
                  penalty_count = 0, last_seen = clock w1, is_online = True,
                  u_created_at = clock w2, updated_at = clock w2\<rparr>"
  shows "snd (snd (initializeUser (um, w))) = w2"
    and "users w2 = users w @ [u]"
    and "um_cache (fst (snd (initializeUser (um, w))))
           = cache_set (clock w2) (cacheKey (deviceName um)) (Some u) two_minutes
               (snd (cache_get (clock w) (cacheKey (deviceName um)) (um_cache um)))"
    and "um_isMountedRef um \<Longrightarrow> um_currentUser (fst (snd (initializeUser (um, w)))) = Some u"
    and "deviceName (fst (snd (initializeUser (um, w)))) = deviceName um"
    and "um_isMountedRef (fst (snd (initializeUser (um, w)))) = um_isMountedRef um"
proof -
  have sel: "fst (select_user_by_device (deviceName um) w) = (None, Some ''PGRST116'')"
    using nf new by (simp add: select_user_by_device_ok filter_device_empty single_def)
  have nf1: "no_failures w1"
    unfolding w1_def by (rule no_failures_tl [OF nf]) simp
  have new1: "deviceName um \<notin> set (map device_name (users w1))"
    using new by (simp add: w1_def)
  have ins: "fst (insert_user (deviceName um) True (clock w1) w1) = (Some u, None)"
    using insert_user_ok(1) [OF nf1 new1, of True "clock w1"]
    by (simp add: u_def w2_def w1_def)
  show users2: "users w2 = users w @ [u]"
    using insert_user_ok(2) [OF nf1 new1, of True "clock w1"]
    by (simp add: u_def w2_def w1_def)
  have body: "initializeUser_try (um, w) =
      (Inr (),
       (if um_isMountedRef um
        then um\<lparr>um_loading := True,
                um_cache := cache_set (clock w2) (cacheKey (deviceName um)) (Some u) two_minutes
                  (snd (cache_get (clock w) (cacheKey (deviceName um)) (um_cache um))),
                um_currentUser := Some u\<rparr>
        else um\<lparr>um_cache := cache_set (clock w2) (cacheKey (deviceName um)) (Some u) two_minutes
                  (snd (cache_get (clock w) (cacheKey (deviceName um)) (um_cache um)))\<rparr>),
       w2)"
    using miss sel ins
    by (simp add: initializeUser_try_def Let_def case_prod_beta fatal_def w1_def w2_def)
  show "snd (snd (initializeUser (um, w))) = w2"
    using label by (simp add: initializeUser_def body Let_def)
  show "um_cache (fst (snd (initializeUser (um, w))))
           = cache_set (clock w2) (cacheKey (deviceName um)) (Some u) two_minutes
               (snd (cache_get (clock w) (cacheKey (deviceName um)) (um_cache um)))"
    using label by (simp add: initializeUser_def body Let_def)
  show "um_isMountedRef um \<Longrightarrow> um_currentUser (fst (snd (initializeUser (um, w)))) = Some u"
    using label by (simp add: initializeUser_def body Let_def)
  show "deviceName (fst (snd (initializeUser (um, w)))) = deviceName um"
    using label by (simp add: initializeUser_def body Let_def)
  show "um_isMountedRef (fst (snd (initializeUser (um, w)))) = um_isMountedRef um"
    using label by (simp add: initializeUser_def body Let_def)
qed

text \<open>A call that finds the participant in the cache.\<close>

lemma initializeUser_cached:
  assumes label: "deviceName um \<noteq> []" "deviceName um \<noteq> ''Unknown Device''"
      and hit: "cache_get (clock w) (cacheKey (deviceName um)) (um_cache um) = (Some u, c)"
  shows "snd (snd (initializeUser (um, w))) = w"
    and "um_isMountedRef um \<Longrightarrow> um_currentUser (fst (snd (initializeUser (um, w)))) = Some u"
  using label hit
  by (simp_all add: initializeUser_def initializeUser_try_def Let_def case_prod_beta)

text \<open>
  C5. Let the device label be resolved (not empty, not the placeholder
  \<^verbatim>\<open>Unknown Device\<close>), with nothing live in the cache under its key, no participant of
  that label in the store, and every store request succeeding. Then \<^verbatim>\<open>initializeUser\<close>
  inserts one participant with that label, \<^verbatim>\<open>is_online = true\<close> and \<^verbatim>\<open>penalty_count = 0\<close>,
  and caches it under the key of the label with a ttl of 2 minutes; a second call at a time
  at which no more than 2 minutes have passed since then sends no request to the store
  (so it reads nothing), leaves the participants as they are, and, the hook being mounted,
  sets the current user to the cached participant, as the first call did.
\<close>

theorem C5_initialize_new_device:
  assumes label: "deviceName um \<noteq> []" "deviceName um \<noteq> ''Unknown Device''"
      and miss: "fst (cache_get (clock w) (cacheKey (deviceName um)) (um_cache um)) = None"
      and nf: "no_failures w"
      and new: "deviceName um \<notin> set (map device_name (users w))"
      and first: "initializeUser (um, w) = (r1, um1, w1)"
      and soon: "t2 - clock w1 \<le> two_minutes"
      and second: "initializeUser (um1, w1\<lparr>clock := t2\<rparr>) = (r2, um2, w2)"
  shows "\<exists>u. users w1 = users w @ [u]
           \<and> device_name u = deviceName um \<and> is_online u = True \<and> penalty_count u = 0
           \<and> cacheRef (um_cache um1) (cacheKey (deviceName um))
               = Some \<lparr>data = Some u, timestamp = clock w1, ttl = 2 * 60 * 1000\<rparr>
           \<and> (um_isMountedRef um \<longrightarrow> um_currentUser um1 = Some u \<and> um_currentUser um2 = Some u)
           \<and> sent_since w1 w2 = [] \<and> users w2 = users w1 \<and> r2 = Inr ()"
proof -
  let ?key = "cacheKey (deviceName um)"
  let ?wa = "snd (select_user_by_device (deviceName um) w)"
  let ?u = "\<lparr>u_id = fresh_uuid (map u_id (users w)), device_name = deviceName um,
             penalty_count = 0, last_seen = clock ?wa, is_online = True,
             u_created_at = clock w1, updated_at = clock w1\<rparr>"
  note facts = initializeUser_new [OF label miss nf new]
  have w1: "w1 = snd (insert_user (deviceName um) True (clock ?wa) ?wa)"
    using facts(1) first by simp
  have users1: "users w1 = users w @ [?u]"
    using facts(2) w1 by simp
  have cache1: "um_cache um1 = cache_set (clock w1) ?key (Some ?u) two_minutes
                   (snd (cache_get (clock w) ?key (um_cache um)))"
    using facts(3) first w1 by simp
  have current1: "um_isMountedRef um \<Longrightarrow> um_currentUser um1 = Some ?u"
    using facts(4) first w1 by simp
  have same: "deviceName um1 = deviceName um" "um_isMountedRef um1 = um_isMountedRef um"
    using facts(5,6) first by simp_all
  have hit: "cache_get (clock (w1\<lparr>clock := t2\<rparr>)) (cacheKey (deviceName um1)) (um_cache um1)
               = (Some ?u, um_cache um1)"
    using soon by (simp add: same cache1 cache_get_fresh)
  have label1: "deviceName um1 \<noteq> []" "deviceName um1 \<noteq> ''Unknown Device''"
    using label same by simp_all
  have w2: "w2 = w1\<lparr>clock := t2\<rparr>"
    using initializeUser_cached(1) [OF label1 hit] second by simp
  have current2: "um_isMountedRef um \<Longrightarrow> um_currentUser um2 = Some ?u"
    using initializeUser_cached(2) [OF label1 hit] second same by simp
  have r2: "r2 = Inr ()"
    using second label1 by (simp add: initializeUser_def Let_def case_prod_beta)
  have entry: "cacheRef (um_cache um1) ?key
                 = Some \<lparr>data = Some ?u, timestamp = clock w1, ttl = 2 * 60 * 1000\<rparr>"
    by (simp add: cache1 cache_set_entry two_minutes_def)
  show ?thesis
    using users1 entry current1 current2 w2 r2
    by (intro exI [of _ ?u]) (simp add: sent_since_def)
qed

theorem C5_initialize_new_device_witness:
  "deviceName example_manager \<noteq> [] \<and> deviceName example_manager \<noteq> ''Unknown Device''
   \<and> fst (cache_get (clock example_world) (cacheKey (deviceName example_manager))
            (um_cache example_manager)) = None
   \<and> no_failures example_world
   \<and> deviceName example_manager \<notin> set (map device_name (users example_world))
   \<and> 81120000 - clock (snd (snd (initializeUser (example_manager, example_world)))) \<le> two_minutes
   \<and> map device_name (users (snd (snd (initializeUser (example_manager, example_world)))))
       = [''DeviceA'', ''DeviceB'']
   \<and> map penalty_count (users (snd (snd (initializeUser (example_manager, example_world)))))
       = [2, 0]
   \<and> sent_since (snd (snd (initializeUser (example_manager, example_world))))
        (snd (snd (initializeUser
           (fst (snd (initializeUser (example_manager, example_world))),
            (snd (snd (initializeUser (example_manager, example_world))))\<lparr>clock := 81120000\<rparr>))))
       = []
   \<and> map_option device_name (um_currentUser (fst (snd (initializeUser
           (fst (snd (initializeUser (example_manager, example_world))),
            (snd (snd (initializeUser (example_manager, example_world))))\<lparr>clock := 81120000\<rparr>)))))
       = Some ''DeviceB''"
proof -
  let ?first = "initializeUser (example_manager, example_world)"
  let ?second = "initializeUser (fst (snd ?first), (snd (snd ?first))\<lparr>clock := 81120000\<rparr>)"
  have label: "deviceName example_manager \<noteq> []"
      "deviceName example_manager \<noteq> ''Unknown Device''"
    by code_simp+
  have miss: "fst (cache_get (clock example_world) (cacheKey (deviceName example_manager))
            (um_cache example_manager)) = None"
    by code_simp
  have nf: "no_failures example_world"
    by code_simp
  have new: "deviceName example_manager \<notin> set (map device_name (users example_world))"
    by code_simp
  have first: "?first = (fst ?first, fst (snd ?first), snd (snd ?first))"
    by simp
  have soon: "81120000 - clock (snd (snd ?first)) \<le> two_minutes"
    by code_simp
  have second: "?second = (fst ?second, fst (snd ?second), snd (snd ?second))"
    by simp
  have evaluated: "map device_name (users (snd (snd ?first))) = [''DeviceA'', ''DeviceB'']"
      "map penalty_count (users (snd (snd ?first))) = [2, 0]"
      "um_isMountedRef example_manager" "deviceName example_manager = ''DeviceB''"
    by code_simp+
  obtain u where u: "device_name u = deviceName example_manager"
      "um_isMountedRef example_manager \<longrightarrow>
         um_currentUser (fst (snd ?first)) = Some u \<and> um_currentUser (fst (snd ?second)) = Some u"
      "sent_since (snd (snd ?first)) (snd (snd ?second)) = []"
    using C5_initialize_new_device [OF label miss nf new first soon second] by blast
  show ?thesis
    using label miss nf new soon evaluated u by simp
qed

subsection \<open>Penalty reduction\<close>

lemma fold_max_ge: "(a::nat) \<le> fold max xs a"
  by (induction xs arbitrary: a) (auto intro: order_trans [OF max.cobounded2])

lemma fold_max_upper: "(x::nat) \<in> set xs \<Longrightarrow> x \<le> fold max xs a"
proof (induction xs arbitrary: a)
  case Nil
  then show ?case by simp
next
  case (Cons y ys)
  show ?case
  proof (cases "x = y")
    case True
    have "y \<le> max y a" by simp
    also have "\<dots> \<le> fold max ys (max y a)" by (rule fold_max_ge)
    finally show ?thesis using True by simp
  next
    case False
    then show ?thesis using Cons by simp
  qed
qed

lemma fresh_uuid_notin: "fresh_uuid ids \<notin> set ids"
  using fold_max_upper [of "fresh_uuid ids" ids 0] by (auto simp: fresh_uuid_def)

lemma Alert_alert_fields [simp]:
  "users (Alert_alert title msg w) = users w"
  "penalties (Alert_alert title msg w) = penalties w"
  "user_activity (Alert_alert title msg w) = user_activity w"
  "tz_offset (Alert_alert title msg w) = tz_offset w"
  "console (Alert_alert title msg w) = console w"
  "requests (Alert_alert title msg w) = requests w"
  "replies (Alert_alert title msg w) = replies w"
  "clock (Alert_alert title msg w) = clock w"
  "alerts (Alert_alert title msg w) = alerts w @ [(title, msg)]"
  by (simp_all add: Alert_alert_def)

lemma no_failures_alert [simp]: "no_failures (Alert_alert title msg w) = no_failures w"
  by (simp add: no_failures_def)

lemma user_exists_alert [simp]: "user_exists uid (Alert_alert title msg w) = user_exists uid w"
  by (simp add: user_exists_def)

text \<open>The most recently created record of a list.\<close>

lemma latest_None [simp]: "(latest ps = None) = (ps = [])"
  by (cases ps) (auto split: option.splits)

lemma latest_Some:
  "latest ps = Some p \<Longrightarrow> p \<in> set ps \<and> (\<forall>q \<in> set ps. p_created_at q \<le> p_created_at p)"
proof (induction ps arbitrary: p)
  case Nil
  then show ?case by simp
next
  case (Cons a ps)
  show ?case
  proof (cases "latest ps")
    case None
    then show ?thesis using Cons.prems by simp
  next
    case (Some q)
    then show ?thesis
      using Cons.prems Cons.IH [of q] by (auto split: if_splits)
  qed
qed

text \<open>The store requests of the settings screen.\<close>

lemma select_latest_active_penalty_world [simp]:
  "snd (select_latest_active_penalty uid w) = snd (await_reply (SelectLatestActivePenalty uid) w)"
  by (simp add: select_latest_active_penalty_def case_prod_beta split: option.splits)

lemma select_latest_active_penalty_ok:
  "no_failures w \<Longrightarrow>
   fst (select_latest_active_penalty uid w)
     = (case latest (filter (active_of uid) (penalties w)) of
          None \<Rightarrow> (None, Some ''PGRST116'') | Some p \<Rightarrow> (Some p, None))"
  by (simp add: select_latest_active_penalty_def case_prod_beta split: option.splits)

lemma update_penalty_fields [simp]:
  "users (snd (update_penalty pid by at w)) = users w"
  "user_activity (snd (update_penalty pid by at w)) = user_activity w"
  "tz_offset (snd (update_penalty pid by at w)) = tz_offset w"
  "console (snd (update_penalty pid by at w)) = console w"
  "requests (snd (update_penalty pid by at w)) = requests w @ [UpdatePenalty pid by at]"
  "replies (snd (update_penalty pid by at w)) = tl (replies w)"
  by (simp_all add: update_penalty_def case_prod_beta split: option.splits)

lemma update_penalty_ok:
  assumes "no_failures w" and "user_exists by w"
  shows "fst (update_penalty pid by at w) = None"
    and "penalties (snd (update_penalty pid by at w))
           = map (\<lambda>p. if p_id p = pid then resolve by at p else p) (penalties w)"
  using assms by (simp_all add: update_penalty_def case_prod_beta)

lemma select_users_world [simp]: "snd (select_users w) = snd (await_reply SelectUsers w)"
  by (simp add: select_users_def case_prod_beta split: option.splits)

lemma update_users_returning_fields [simp]:
  "penalties (snd (update_users_returning uid upd w)) = penalties w"
  "user_activity (snd (update_users_returning uid upd w)) = user_activity w"
  by (simp_all add: update_users_returning_def case_prod_beta Let_def split: option.splits)

text \<open>Rows keep their counter unless an update names it.\<close>

lemma update_rows_ids [simp]: "map u_id (update_rows i upd t us) = map u_id us"
  by (induction us) (simp_all add: update_rows_def apply_update_def)

lemma update_rows_keeps_counts:
  "set_penalty_count upd = None \<Longrightarrow>
   (\<forall>u \<in> set (update_rows i upd t us). u_id u = uid \<longrightarrow> penalty_count u = c)
     = (\<forall>u \<in> set us. u_id u = uid \<longrightarrow> penalty_count u = c)"
  by (induction us) (auto simp: update_rows_def apply_update_def)

lemma has_count_update_rows:
  "set_penalty_count upd = None \<Longrightarrow>
   has_count uid c (update_rows i upd t us) = has_count uid c us"
  by (simp add: has_count_def update_rows_keeps_counts)

lemma has_count_update_users_returning:
  "set_penalty_count upd = None \<Longrightarrow>
   has_count uid c (users (snd (update_users_returning i upd w))) = has_count uid c (users w)"
  by (simp add: update_users_returning_def case_prod_beta Let_def has_count_update_rows
      split: option.splits)

lemma has_count_insert_user:
  "has_count uid c (users w) \<Longrightarrow> has_count uid c (users (snd (insert_user name b t w)))"
proof -
  have "fresh_uuid (map u_id (users w)) \<notin> set (map u_id (users w))"
    by (rule fresh_uuid_notin)
  then show "has_count uid c (users w) \<Longrightarrow> ?thesis"
    by (auto simp: insert_user_def case_prod_beta Let_def has_count_def split: option.splits)
qed

text \<open>What \<^verbatim>\<open>loadUsers\<close> and \<^verbatim>\<open>refreshUser\<close> leave alone.\<close>

lemma initializeUser_try_keeps:
  "penalties (snd (snd (initializeUser_try (um, w)))) = penalties w"
  "has_count uid c (users w) \<Longrightarrow> has_count uid c (users (snd (snd (initializeUser_try (um, w)))))"
  by (simp_all add: initializeUser_try_def Let_def case_prod_beta no_update_def
        has_count_update_users_returning has_count_insert_user
      split: option.splits)

lemma initializeUser_keeps:
  "penalties (snd (snd (initializeUser (um, w)))) = penalties w"
  "has_count uid c (users w) \<Longrightarrow> has_count uid c (users (snd (snd (initializeUser (um, w)))))"
  "fst (initializeUser (um, w)) = Inr ()"
  by (simp_all add: initializeUser_def Let_def case_prod_beta initializeUser_try_keeps
      split: sum.splits)

lemma refreshUser_keeps:
  "penalties (snd (snd (refreshUser (um, w)))) = penalties w"
  "has_count uid c (users w) \<Longrightarrow> has_count uid c (users (snd (snd (refreshUser (um, w)))))"
  "fst (refreshUser (um, w)) = Inr ()"
  by (simp_all add: refreshUser_def Let_def initializeUser_keeps)

lemma loadUsers_try_keeps:
  "penalties (snd (snd (loadUsers_try (st, w)))) = penalties w"
  "users (snd (snd (loadUsers_try (st, w)))) = users w"
  by (simp_all add: loadUsers_try_def Let_def case_prod_beta split: option.splits)

lemma loadUsers_keeps:
  "penalties (snd (snd (loadUsers (st, w)))) = penalties w"
  "users (snd (snd (loadUsers (st, w)))) = users w"
  "fst (loadUsers (st, w)) = Inr ()"
  by (simp_all add: loadUsers_def Let_def case_prod_beta loadUsers_try_keeps split: sum.splits)

text \<open>Resolving the one row with a given identifier.\<close>

lemma resolve_not_active [simp]: "\<not> active_of uid (resolve by at p)"
  by (simp add: active_of_def resolve_def)

lemma map_resolve_absent:
  "p_id p \<notin> set (map p_id ps) \<Longrightarrow>
   map (\<lambda>q. if p_id q = p_id p then resolve by at q else q) ps = ps"
  by (induction ps) auto

lemma map_only_self:
  "p \<notin> set ps \<Longrightarrow> map (\<lambda>q. if q = p then f q else q) ps = ps"
  by (induction ps) auto

lemma resolve_one_filter:
  assumes "distinct (map p_id ps)" and "p \<in> set ps" and "active_of uid p"
  shows "filter (active_of uid) (map (\<lambda>q. if p_id q = p_id p then resolve by at q else q) ps)
           = remove1 p (filter (active_of uid) ps)"
  using assms
proof (induction ps)
  case Nil
  then show ?case by simp
next
  case (Cons a ps)
  show ?case
  proof (cases "a = p")
    case True
    then have "p_id p \<notin> set (map p_id ps)"
      using Cons.prems(1) by simp
    then show ?thesis
      using True Cons.prems(3) by (simp add: map_resolve_absent)
  next
    case False
    then have "p \<in> set ps" and "p_id a \<noteq> p_id p"
      using Cons.prems(1,2) by (auto simp: image_iff)
    then show ?thesis
      using False Cons.IH Cons.prems(1,3) by simp
  qed
qed

lemma resolve_one_map:
  assumes "distinct (map p_id ps)" and "p \<in> set ps"
  shows "map (\<lambda>q. if p_id q = p_id p then resolve by at q else q) ps
           = map (\<lambda>q. if q = p then resolve by at q else q) ps"
  using assms
proof (induction ps)
  case Nil
  then show ?case by simp
next
  case (Cons a ps)
  show ?case
  proof (cases "a = p")
    case True
    then have "p_id p \<notin> set (map p_id ps)" and "p \<notin> set ps"
      using Cons.prems(1) by (auto simp: image_iff)
    then show ?thesis
      using True by (simp add: map_resolve_absent map_only_self)
  next
    case False
    then have "p \<in> set ps" and "p_id a \<noteq> p_id p"
      using Cons.prems(1,2) by (auto simp: image_iff)
    then show ?thesis
      using False Cons.IH Cons.prems(1) by simp
  qed
qed

lemma has_count_written:
  "set_penalty_count upd = Some c \<Longrightarrow> uid \<in> set (map u_id us) \<Longrightarrow>
   has_count uid c (update_rows uid upd t us)"
  by (auto simp: has_count_def) (auto simp: update_rows_def apply_update_def)

text \<open>The Reduce button, pressed when the store holds an active record of the user.\<close>

lemma reducePenalty_resolves:
  assumes cur: "um_currentUser um = Some reducer" and nonzero: "penalty_count user \<noteq> 0"
      and nf: "no_failures w"
      and found: "latest (filter (active_of (u_id user)) (penalties w)) = Some p"
      and fk: "user_exists (u_id reducer) w" and ex: "user_exists (u_id user) w"
  shows "\<exists>t. penalties (snd (snd (snd (reducePenalty user Reduce (st, um, w)))))
              = map (\<lambda>q. if p_id q = p_id p then resolve (u_id reducer) t q else q) (penalties w)"
    and "has_count (u_id user) (max 0 (penalty_count user - 1))
           (users (snd (snd (snd (reducePenalty user Reduce (st, um, w))))))"
proof -
  let ?w0 = "Alert_alert ''Reduce Penalty''
               (''Reduce one penalty for '' @ device_name user @ ''?'') w"
  let ?w1 = "snd (select_latest_active_penalty (u_id user) ?w0)"
  let ?w2 = "snd (update_penalty (p_id p) (u_id reducer) (clock ?w1) ?w1)"
  let ?upd = "no_update\<lparr>set_penalty_count := Some (max 0 (penalty_count user - 1)),
                         set_updated_at := Some (clock ?w2)\<rparr>"
  let ?w3 = "snd (update_users (u_id user) ?upd ?w2)"
  let ?w4 = "Alert_alert ''Success'' ''Penalty reduced successfully!'' ?w3"
  let ?w5 = "snd (snd (loadUsers (st, ?w4)))"
  let ?w6 = "snd (snd (refreshUser (um, ?w5)))"
  have sel: "fst (select_latest_active_penalty (u_id user) ?w0) = (Some p, None)"
    using nf found by (simp add: select_latest_active_penalty_ok)
  have nf1: "no_failures ?w1"
    by (rule no_failures_tl [of ?w0]) (simp_all add: nf)
  have fk1: "user_exists (u_id reducer) ?w1"
    using fk by simp
  have upP: "fst (update_penalty (p_id p) (u_id reducer) (clock ?w1) ?w1) = None"
    by (rule update_penalty_ok(1) [OF nf1 fk1])
  have pen2: "penalties ?w2
      = map (\<lambda>q. if p_id q = p_id p then resolve (u_id reducer) (clock ?w1) q else q) (penalties w)"
    using update_penalty_ok(2) [OF nf1 fk1, of "p_id p" "clock ?w1"] by simp
  have nf2: "no_failures ?w2"
    by (rule no_failures_tl [OF nf1]) simp
  have upU: "fst (update_users (u_id user) ?upd ?w2) = None"
    by (rule update_users_ok [OF nf2])
  have users3: "users ?w3 = update_rows (u_id user) ?upd (clock ?w3) (users w)"
    using update_users_done [OF upU] by simp
  have out: "snd (snd (snd (reducePenalty user Reduce (st, um, w)))) = ?w6"
    using cur nonzero sel upP upU
    by (simp add: reducePenalty_def reduce_onPress_def reduce_onPress_try_def Let_def
          case_prod_beta fatal_def loadUsers_keeps(3) refreshUser_keeps(3))
  have "penalties ?w6 = penalties ?w2"
    by (simp add: refreshUser_keeps(1) loadUsers_keeps(1))
  then show "\<exists>t. penalties (snd (snd (snd (reducePenalty user Reduce (st, um, w)))))
              = map (\<lambda>q. if p_id q = p_id p then resolve (u_id reducer) t q else q) (penalties w)"
    using pen2 out by auto
  have "has_count (u_id user) (max 0 (penalty_count user - 1)) (users ?w3)"
    unfolding users3 using ex by (intro has_count_written) (simp_all add: user_exists_def)
  then have "has_count (u_id user) (max 0 (penalty_count user - 1)) (users ?w6)"
    by (intro refreshUser_keeps(2)) (simp add: loadUsers_keeps(2))
  then show "has_count (u_id user) (max 0 (penalty_count user - 1))
           (users (snd (snd (snd (reducePenalty user Reduce (st, um, w))))))"
    using out by simp
qed

text \<open>The Reduce button, pressed when the store holds no active record of the user.\<close>

lemma reducePenalty_nothing_found:
  assumes cur: "um_currentUser um = Some reducer" and nonzero: "penalty_count user \<noteq> 0"
      and nf: "no_failures w"
      and none: "filter (active_of (u_id user)) (penalties w) = []"
  shows "penalties (snd (snd (snd (reducePenalty user Reduce (st, um, w))))) = penalties w"
    and "users (snd (snd (snd (reducePenalty user Reduce (st, um, w))))) = users w"
    and "alerts (snd (snd (snd (reducePenalty user Reduce (st, um, w)))))
           = alerts w @ [(''Reduce Penalty'', ''Reduce one penalty for '' @ device_name user @ ''?''),
                         (''Error'', ''No penalties found to reduce'')]"
proof -
  let ?w0 = "Alert_alert ''Reduce Penalty''
               (''Reduce one penalty for '' @ device_name user @ ''?'') w"
  have sel: "fst (select_latest_active_penalty (u_id user) ?w0) = (None, Some ''PGRST116'')"
    using nf none by (simp add: select_latest_active_penalty_ok)
  have out: "snd (snd (snd (reducePenalty user Reduce (st, um, w))))
      = Alert_alert ''Error'' ''No penalties found to reduce''
          (snd (select_latest_active_penalty (u_id user) ?w0))"
    using cur nonzero sel
    by (simp add: reducePenalty_def reduce_onPress_def reduce_onPress_try_def Let_def
          case_prod_beta fatal_def)
  show "penalties (snd (snd (snd (reducePenalty user Reduce (st, um, w))))) = penalties w"
    by (simp add: out)
  show "users (snd (snd (snd (reducePenalty user Reduce (st, um, w))))) = users w"
    by (simp add: out)
  show "alerts (snd (snd (snd (reducePenalty user Reduce (st, um, w)))))
          = alerts w @ [(''Reduce Penalty'', ''Reduce one penalty for '' @ device_name user @ ''?''),
                        (''Error'', ''No penalties found to reduce'')]"
    by (simp add: out)
qed

lemma reducePenalty_zero:
  assumes "penalty_count user = 0"
  shows "snd (snd (snd (reducePenalty user choice (st, um, w)))) = w
       \<or> snd (snd (snd (reducePenalty user choice (st, um, w))))
           = Alert_alert ''No Penalties'' ''This user has no penalties to reduce'' w"
  using assms by (simp add: reducePenalty_def split: option.splits)

text \<open>
  C3 (as amended). \<^verbatim>\<open>reducePenalty\<close> on a user whose \<^verbatim>\<open>penalty_count\<close> is 0 changes no
  table and sends no request, so it selects no penalty record. On a user whose
  \<^verbatim>\<open>penalty_count\<close> is \<open>k > 0\<close>, with the Reduce button pressed, a reducer resolved, every
  store request succeeding, and a store that holds the reducer and the user and gives
  every penalty record an identifier of its own: if the store holds an active record of
  the user, then one active record of the user, created no earlier than any other, gets
  \<^verbatim>\<open>removed_by\<close> and \<^verbatim>\<open>removed_at\<close> set, every other record is as it was (the user has
  exactly one active record less), and every stored row of the user has the count
  \<open>k - 1\<close>, which is not below 0; if the store holds no active record of the user, the
  penalties and the participants are left as they were, and after the dialog the one
  alert shown is the error \<^verbatim>\<open>No penalties found to reduce\<close>.
\<close>

theorem C3_reduce_penalty:
  "(penalty_count user = 0 \<longrightarrow>
      penalties (snd (snd (snd (reducePenalty user choice (st, um, w))))) = penalties w
    \<and> users (snd (snd (snd (reducePenalty user choice (st, um, w))))) = users w
    \<and> sent_since w (snd (snd (snd (reducePenalty user choice (st, um, w))))) = [])
   \<and> (um_currentUser um = Some reducer \<and> 0 < penalty_count user \<and> no_failures w
       \<and> user_exists (u_id reducer) w \<and> user_exists (u_id user) w
       \<and> distinct (map p_id (penalties w))
       \<and> filter (active_of (u_id user)) (penalties w) \<noteq> [] \<longrightarrow>
      (\<exists>p t. p \<in> set (penalties w) \<and> active_of (u_id user) p
          \<and> (\<forall>q \<in> set (penalties w). active_of (u_id user) q \<longrightarrow> p_created_at q \<le> p_created_at p)
          \<and> penalties (snd (snd (snd (reducePenalty user Reduce (st, um, w)))))
              = map (\<lambda>q. if q = p then resolve (u_id reducer) t q else q) (penalties w)
          \<and> length (filter (active_of (u_id user))
                      (penalties (snd (snd (snd (reducePenalty user Reduce (st, um, w))))))) + 1
              = length (filter (active_of (u_id user)) (penalties w)))
    \<and> has_count (u_id user) (penalty_count user - 1)
         (users (snd (snd (snd (reducePenalty user Reduce (st, um, w))))))
    \<and> 0 \<le> penalty_count user - 1)
   \<and> (um_currentUser um = Some reducer \<and> penalty_count user \<noteq> 0 \<and> no_failures w
       \<and> filter (active_of (u_id user)) (penalties w) = [] \<longrightarrow>
      penalties (snd (snd (snd (reducePenalty user Reduce (st, um, w))))) = penalties w
    \<and> users (snd (snd (snd (reducePenalty user Reduce (st, um, w))))) = users w
    \<and> alerts (snd (snd (snd (reducePenalty user Reduce (st, um, w)))))
        = alerts w @ [(''Reduce Penalty'', ''Reduce one penalty for '' @ device_name user @ ''?''),
                      (''Error'', ''No penalties found to reduce'')])"
proof (intro conjI impI)
  assume zero: "penalty_count user = 0"
  show "penalties (snd (snd (snd (reducePenalty user choice (st, um, w))))) = penalties w"
    using reducePenalty_zero [OF zero, of choice st um w] by auto
  show "users (snd (snd (snd (reducePenalty user choice (st, um, w))))) = users w"
    using reducePenalty_zero [OF zero, of choice st um w] by auto
  show "sent_since w (snd (snd (snd (reducePenalty user choice (st, um, w))))) = []"
    using reducePenalty_zero [OF zero, of choice st um w] by (auto simp: sent_since_def)
next
  let ?w' = "snd (snd (snd (reducePenalty user Reduce (st, um, w))))"
  let ?act = "filter (active_of (u_id user)) (penalties w)"
  assume h: "um_currentUser um = Some reducer \<and> 0 < penalty_count user \<and> no_failures w
       \<and> user_exists (u_id reducer) w \<and> user_exists (u_id user) w
       \<and> distinct (map p_id (penalties w))
       \<and> filter (active_of (u_id user)) (penalties w) \<noteq> []"
  then obtain p where found: "latest ?act = Some p"
    by (cases "latest ?act") auto
  have p: "p \<in> set ?act" "\<forall>q \<in> set ?act. p_created_at q \<le> p_created_at p"
    using latest_Some [OF found] by simp_all
  have nonzero: "penalty_count user \<noteq> 0"
    using h by simp
  obtain t where t: "penalties ?w'
      = map (\<lambda>q. if p_id q = p_id p then resolve (u_id reducer) t q else q) (penalties w)"
    using reducePenalty_resolves(1) [OF _ nonzero _ found, of um reducer st] h by blast
  have active: "filter (active_of (u_id user)) (penalties ?w') = remove1 p ?act"
    unfolding t using h p(1) by (intro resolve_one_filter) simp_all
  have only: "penalties ?w' = map (\<lambda>q. if q = p then resolve (u_id reducer) t q else q) (penalties w)"
    unfolding t using h p(1) by (intro resolve_one_map) simp_all
  have less: "length (filter (active_of (u_id user)) (penalties ?w')) + 1 = length ?act"
  proof -
    have "length ?act \<noteq> 0"
      using h by simp
    then show ?thesis
      unfolding active using p(1) by (simp add: length_remove1)
  qed
  show "\<exists>p t. p \<in> set (penalties w) \<and> active_of (u_id user) p
          \<and> (\<forall>q \<in> set (penalties w). active_of (u_id user) q \<longrightarrow> p_created_at q \<le> p_created_at p)
          \<and> penalties ?w' = map (\<lambda>q. if q = p then resolve (u_id reducer) t q else q) (penalties w)
          \<and> length (filter (active_of (u_id user)) (penalties ?w')) + 1 = length ?act"
    using p only less by (intro exI [of _ p] exI [of _ t]) simp
  have "max 0 (penalty_count user - 1) = penalty_count user - 1"
    using h by simp
  then show "has_count (u_id user) (penalty_count user - 1) (users ?w')"
    using reducePenalty_resolves(2) [OF _ nonzero _ found, of um reducer st] h by simp
  show "0 \<le> penalty_count user - 1"
    using h by simp
next
  assume h: "um_currentUser um = Some reducer \<and> penalty_count user \<noteq> 0 \<and> no_failures w
       \<and> filter (active_of (u_id user)) (penalties w) = []"
  show "penalties (snd (snd (snd (reducePenalty user Reduce (st, um, w))))) = penalties w"
    using reducePenalty_nothing_found(1) [of um reducer user w st] h by simp
  show "users (snd (snd (snd (reducePenalty user Reduce (st, um, w))))) = users w"
    using reducePenalty_nothing_found(2) [of um reducer user w st] h by simp
  show "alerts (snd (snd (snd (reducePenalty user Reduce (st, um, w)))))
          = alerts w @ [(''Reduce Penalty'', ''Reduce one penalty for '' @ device_name user @ ''?''),
                        (''Error'', ''No penalties found to reduce'')]"
    using reducePenalty_nothing_found(3) [of um reducer user w st] h by simp
qed

text \<open>
  As stated for every user with \<open>k > 0\<close>, the claim fails: for a user shown with two
  penalties while the store holds no active record of theirs, no record is resolved and the
  count stays 2.
\<close>

theorem C3_reduce_penalty_counterexample:
  "um_currentUser reducer_manager = Some other_user
   \<and> penalty_count example_user = 2
   \<and> penalties two_user_world = []
   \<and> penalties (snd (snd (snd (reducePenalty example_user Reduce
        (example_settings, reducer_manager, two_user_world))))) = []
   \<and> map penalty_count (users (snd (snd (snd (reducePenalty example_user Reduce
        (example_settings, reducer_manager, two_user_world)))))) = [2, 0]"
  by code_simp

theorem C3_reduce_penalty_witness:
  "penalty_count other_user = 0
   \<and> sent_since penalized_world (snd (snd (snd (reducePenalty other_user Reduce
        (example_settings, reducer_manager, penalized_world))))) = []
   \<and> um_currentUser reducer_manager = Some other_user \<and> 0 < penalty_count example_user
   \<and> no_failures penalized_world
   \<and> user_exists (u_id other_user) penalized_world
   \<and> user_exists (u_id example_user) penalized_world
   \<and> distinct (map p_id (penalties penalized_world))
   \<and> filter (active_of (u_id example_user)) (penalties penalized_world) \<noteq> []
   \<and> map removed_by (penalties (snd (snd (snd (reducePenalty example_user Reduce
        (example_settings, reducer_manager, penalized_world))))))
       = [None, Some 2, Some 2]
   \<and> has_count (u_id example_user) (penalty_count example_user - 1)
        (users (snd (snd (snd (reducePenalty example_user Reduce
           (example_settings, reducer_manager, penalized_world))))))
   \<and> map penalty_count (users (snd (snd (snd (reducePenalty example_user Reduce
        (example_settings, reducer_manager, penalized_world)))))) = [1, 0]
   \<and> filter (active_of (u_id example_user)) (penalties two_user_world) = []
   \<and> users (snd (snd (snd (reducePenalty example_user Reduce
        (example_settings, reducer_manager, two_user_world))))) = users two_user_world
   \<and> alerts (snd (snd (snd (reducePenalty example_user Reduce
        (example_settings, reducer_manager, two_user_world)))))
       = [(''Reduce Penalty'', ''Reduce one penalty for DeviceA?''),
          (''Error'', ''No penalties found to reduce'')]"
proof -
  have zero: "penalty_count other_user = 0"
    by code_simp
  have h: "um_currentUser reducer_manager = Some other_user \<and> 0 < penalty_count example_user
       \<and> no_failures penalized_world
       \<and> user_exists (u_id other_user) penalized_world
       \<and> user_exists (u_id example_user) penalized_world
       \<and> distinct (map p_id (penalties penalized_world))
       \<and> filter (active_of (u_id example_user)) (penalties penalized_world) \<noteq> []"
    by code_simp
  have h3: "um_currentUser reducer_manager = Some other_user \<and> penalty_count example_user \<noteq> 0
       \<and> no_failures two_user_world
       \<and> filter (active_of (u_id example_user)) (penalties two_user_world) = []"
    by code_simp
  have evaluated: "map removed_by (penalties (snd (snd (snd (reducePenalty example_user Reduce
        (example_settings, reducer_manager, penalized_world)))))) = [None, Some 2, Some 2]"
      "map penalty_count (users (snd (snd (snd (reducePenalty example_user Reduce
        (example_settings, reducer_manager, penalized_world)))))) = [1, 0]"
      "alerts two_user_world = []" "device_name example_user = ''DeviceA''"
    by code_simp+
  show ?thesis
    using zero h h3 evaluated
      C3_reduce_penalty [of other_user Reduce example_settings reducer_manager penalized_world
        other_user]
      C3_reduce_penalty [of example_user Reduce example_settings reducer_manager penalized_world
        other_user]
      C3_reduce_penalty [of example_user Reduce example_settings reducer_manager two_user_world
        other_user]
    by simp
qed

end
